theory Spec2Isabelle
  imports Complex_Main "HOL-Library.Multiset"
begin

section \<open>TaskFlow: a shallow embedding of the task and authentication routers\<close>

text \<open>
  The handlers of the task router (\<^verbatim>\<open>src/taskflow/routes/tasks.js\<close>) and of the
  authentication router (in \<^verbatim>\<open>src/ppt_structure.js\<close>) and the Mongoose schemas of the
  Task and User models (in \<^verbatim>\<open>src/taskflow/server.js\<close>) are translated into HOL
  functions. A collection is a list of documents in insertion order; every handler takes
  the collection and returns the HTTP reply together with the collection it leaves behind.
  The clock (\<open>now\<close>, milliseconds) and the identifier generated for a new document are
  arguments. Absent JSON fields and absent query parameters (\<^verbatim>\<open>undefined\<close>) are \<open>None\<close>.

  The libraries the handlers call are not part of the repository. Their behaviour is
  written out where it is fixed by their documentation (Mongoose setters, validators,
  timestamps and middleware; the order of Express routes; jsonwebtoken's checks) and is
  taken as a parameter where it is not: the MAC of the token signature, bcrypt, the
  ordering MongoDB uses to sort on a field, and what the driver does with a skip or limit
  that is not a natural number.
\<close>

subsection \<open>Strings\<close>

definition is_space :: "char \<Rightarrow> bool" where
  \<comment> \<open>the white space \<^verbatim>\<open>String.prototype.trim\<close> removes, within ASCII\<close>
  "is_space c = (c \<in> set [CHR '' '', CHR 0x09, CHR 0x0A, CHR 0x0B, CHR 0x0C, CHR 0x0D])"

definition trim :: "string \<Rightarrow> string" where
  "trim s = rev (dropWhile is_space (rev (dropWhile is_space s)))"

definition code :: "char \<Rightarrow> nat" where
  "code c = of_char c"

definition is_digit :: "char \<Rightarrow> bool" where
  "is_digit c = (48 \<le> code c \<and> code c \<le> 57)"

definition is_upper :: "char \<Rightarrow> bool" where
  "is_upper c = (65 \<le> code c \<and> code c \<le> 90)"

definition is_lower :: "char \<Rightarrow> bool" where
  "is_lower c = (97 \<le> code c \<and> code c \<le> 122)"

definition is_word :: "char \<Rightarrow> bool" where
  \<comment> \<open>the class \<^verbatim>\<open>\w\<close> of a JavaScript regular expression\<close>
  "is_word c = (is_digit c \<or> is_upper c \<or> is_lower c \<or> c = CHR ''_'')"

definition is_hex :: "char \<Rightarrow> bool" where
  \<comment> \<open>the class \<^verbatim>\<open>[0-9a-fA-F]\<close>\<close>
  "is_hex c = (is_digit c \<or> (97 \<le> code c \<and> code c \<le> 102) \<or> (65 \<le> code c \<and> code c \<le> 70))"

definition lower_char :: "char \<Rightarrow> char" where
  "lower_char c = (if is_upper c then char_of (code c + 32) else c)"

definition toLowerCase :: "string \<Rightarrow> string" where
  "toLowerCase s = map lower_char s"

subsection \<open>Replies\<close>

text \<open>
  A failing reply is its HTTP status and its message. The messages of the source are
  Korean string literals; each literal is one constructor here, so two replies carry the
  same message exactly when the source sends the same literal. The messages of failed
  schema validators are collected in \<open>M_validation\<close>, which the handlers join with a comma.
\<close>

datatype vmsg =
    V_title_required | V_title_maxlength | V_description_maxlength | V_category_enum
  | V_priority_min | V_priority_max | V_dueDate_past | V_tag_maxlength
  | V_name_required | V_name_maxlength | V_email_match | V_password_minlength

datatype msg =
    M_token_required | M_invalid_token | M_token_expired | M_auth_error
  | M_title_required | M_priority_range | M_invalid_task_id | M_task_not_found
  | M_validation "vmsg list" | M_list_error | M_route_not_found
  | M_register_fields_required | M_invalid_email | M_password_short | M_email_taken
  | M_login_fields_required | M_bad_credentials | M_account_deactivated
  | M_invalid_user | M_account_deactivated_me | M_internal_error

datatype failure = Failure nat msg

type_synonym 'a reply = "failure + 'a"

fun status :: "'a reply \<Rightarrow> nat" where
  "status (Inl (Failure n m)) = n"
| "status (Inr x) = 200"

abbreviation NotFound :: failure where
  "NotFound \<equiv> Failure 404 M_task_not_found"

abbreviation InvalidToken :: failure where
  "InvalidToken \<equiv> Failure 401 M_invalid_token"

abbreviation ExpiredToken :: failure where
  "ExpiredToken \<equiv> Failure 401 M_token_expired"

abbreviation MissingCredentials :: failure where
  "MissingCredentials \<equiv> Failure 401 M_token_required"

abbreviation InvalidCredentials :: failure where
  "InvalidCredentials \<equiv> Failure 401 M_bad_credentials"

abbreviation AccountDeactivated :: failure where
  "AccountDeactivated \<equiv> Failure 401 M_account_deactivated"

abbreviation DuplicateEmail :: failure where
  "DuplicateEmail \<equiv> Failure 409 M_email_taken"

subsection \<open>The Task schema\<close>

text \<open>
  Identifiers are the hexadecimal text of an ObjectId. Dates are milliseconds. The six
  category labels of the schema are written with the names the specification gives them
  (work, study, personal, health, shopping, other), in the order of the schema's \<^verbatim>\<open>enum\<close>.
  The owner of a task is the identifier carried by the verified token; its cast to an
  ObjectId is not modelled. Text is 8-bit; case and white space are those of ASCII.
\<close>

record task =
  tid :: string
  userId :: string
  title :: string
  description :: string
  category :: string
  priority :: int
  dueDate :: "int option"
  completed :: bool
  completedAt :: "int option"
  tags :: "string list"
  createdAt :: int
  updatedAt :: int

definition categories :: "string list" where
  "categories = [''work'', ''study'', ''personal'', ''health'', ''shopping'', ''other'']"

definition v_title :: "string \<Rightarrow> vmsg list" where
  "v_title t = (if t = [] then [V_title_required]
                else if 100 < length t then [V_title_maxlength] else [])"

definition v_description :: "string \<Rightarrow> vmsg list" where
  "v_description d = (if 500 < length d then [V_description_maxlength] else [])"

definition v_category :: "string \<Rightarrow> vmsg list" where
  "v_category c = (if c \<in> set categories then [] else [V_category_enum])"

definition v_priority :: "int \<Rightarrow> vmsg list" where
  "v_priority p = (if p < 1 then [V_priority_min] else if 5 < p then [V_priority_max] else [])"

definition v_dueDate :: "int \<Rightarrow> int option \<Rightarrow> vmsg list" where
  \<comment> \<open>\<^verbatim>\<open>!value || value >= new Date()\<close>\<close>
  "v_dueDate now d = (case d of None \<Rightarrow> [] | Some v \<Rightarrow> if now \<le> v then [] else [V_dueDate_past])"

definition v_tags :: "string list \<Rightarrow> vmsg list" where
  "v_tags ts = map (\<lambda>t. V_tag_maxlength) (filter (\<lambda>t. 20 < length t) ts)"

definition validate_task :: "int \<Rightarrow> task \<Rightarrow> vmsg list" where
  \<comment> \<open>document validation, path by path in the order of the schema\<close>
  "validate_task now t =
     v_title (title t) @ v_description (description t) @ v_category (category t)
     @ v_priority (priority t) @ v_dueDate now (dueDate t) @ v_tags (tags t)"

definition pre_save :: "int \<Rightarrow> bool \<Rightarrow> task \<Rightarrow> task" where
  \<comment> \<open>\<^verbatim>\<open>taskSchema.pre('save')\<close>; the flag is \<^verbatim>\<open>this.isModified('completed')\<close>\<close>
  "pre_save now isModifiedCompleted t =
     (let t1 = (if isModifiedCompleted \<and> completed t \<and> completedAt t = None
                then t\<lparr>completedAt := Some now\<rparr> else t)
      in if isModifiedCompleted \<and> \<not> completed t1 \<and> completedAt t1 \<noteq> None
         then t1\<lparr>completedAt := None\<rparr> else t1)"

definition save_new :: "int \<Rightarrow> task \<Rightarrow> task list \<Rightarrow> (vmsg list + task) \<times> task list" where
  \<comment> \<open>\<^verbatim>\<open>save()\<close> of a new document: validation, then the pre-save hook, then the
      timestamps, then the insert. A default value is not a modification, so the hook
      sees \<^verbatim>\<open>isModified('completed')\<close> false.\<close>
  "save_new now t store =
     (case validate_task now t of
        e # es \<Rightarrow> (Inl (e # es), store)
      | [] \<Rightarrow> (let saved = (pre_save now False t)\<lparr>createdAt := now, updatedAt := now\<rparr>
               in (Inr saved, store @ [saved])))"

subsection \<open>Request bodies\<close>

text \<open>
  The JSON body of a create or update request. \<open>b_dueDate\<close> is the instant a non-empty
  date text denotes. The last three fields are read by no handler; they stand for what
  else a caller may put into the body.
\<close>

record task_body =
  b_title :: "string option"
  b_description :: "string option"
  b_category :: "string option"
  b_priority :: "int option"
  b_dueDate :: "int option"
  b_completed :: "bool option"
  b_tags :: "string list option"
  b_userId :: "string option"
  b_completedAt :: "int option"
  b_createdAt :: "int option"

definition priority_out_of_range :: "int option \<Rightarrow> bool" where
  \<comment> \<open>\<^verbatim>\<open>priority && (priority < 1 || priority > 5)\<close>: zero is falsy\<close>
  "priority_out_of_range p =
     (case p of None \<Rightarrow> False | Some v \<Rightarrow> v \<noteq> 0 \<and> (v < 1 \<or> 5 < v))"

definition validation_reply :: "vmsg list \<Rightarrow> failure" where
  "validation_reply es = Failure 400 (M_validation es)"

subsection \<open>POST /api/tasks\<close>

definition create_task :: "int \<Rightarrow> string \<Rightarrow> string \<Rightarrow> task_body \<Rightarrow> task list \<Rightarrow> task reply \<times> task list" where
  "create_task now newId uid b store =
     (case b_title b of
        None \<Rightarrow> (Inl (Failure 400 M_title_required), store)
      | Some t \<Rightarrow>
          if t = [] \<or> trim t = [] then (Inl (Failure 400 M_title_required), store)
          else if priority_out_of_range (b_priority b) then (Inl (Failure 400 M_priority_range), store)
          else
            let newTask = \<lparr>
                  tid = newId,
                  userId = uid,
                  title = trim t,
                  description = trim (case b_description b of None \<Rightarrow> [] | Some d \<Rightarrow> if d = [] then [] else trim d),
                  category = (case b_category b of None \<Rightarrow> ''personal'' | Some c \<Rightarrow> if c = [] then ''personal'' else c),
                  priority = (case b_priority b of None \<Rightarrow> 3 | Some p \<Rightarrow> if p = 0 then 3 else p),
                  dueDate = b_dueDate b,
                  completed = False,
                  completedAt = None,
                  tags = map trim (case b_tags b of None \<Rightarrow> [] | Some ts \<Rightarrow> ts),
                  createdAt = now,
                  updatedAt = now \<rparr>
            in case save_new now newTask store of
                 (Inl es, store') \<Rightarrow> (Inl (validation_reply es), store')
               | (Inr saved, store') \<Rightarrow> (Inr saved, store'))"

subsection \<open>Lookups by identifier\<close>

definition valid_id :: "string \<Rightarrow> bool" where
  \<comment> \<open>\<^verbatim>\<open>taskId.match(/^[0-9a-fA-F]{24}$/)\<close>\<close>
  "valid_id s = (length s = 24 \<and> list_all is_hex s)"

definition owned :: "string \<Rightarrow> string \<Rightarrow> task \<Rightarrow> bool" where
  \<comment> \<open>the filter \<^verbatim>\<open>{ _id: taskId, userId: req.user.id }\<close>\<close>
  "owned taskId uid t = (tid t = taskId \<and> userId t = uid)"

fun replace_first :: "('a \<Rightarrow> bool) \<Rightarrow> 'a \<Rightarrow> 'a list \<Rightarrow> 'a list" where
  "replace_first P y [] = []"
| "replace_first P y (x # xs) = (if P x then y # xs else x # replace_first P y xs)"

fun remove_first :: "('a \<Rightarrow> bool) \<Rightarrow> 'a list \<Rightarrow> 'a list" where
  "remove_first P [] = []"
| "remove_first P (x # xs) = (if P x then xs else x # remove_first P xs)"

definition get_task :: "string \<Rightarrow> string \<Rightarrow> task list \<Rightarrow> task reply" where
  "get_task uid taskId store =
     (if \<not> valid_id taskId then Inl (Failure 400 M_invalid_task_id)
      else case find (owned taskId uid) store of
             None \<Rightarrow> Inl NotFound
           | Some t \<Rightarrow> Inr t)"

subsection \<open>PUT /api/tasks/:id\<close>

record update_fields =
  u_title :: "string option"
  u_description :: "string option"
  u_category :: "string option"
  u_priority :: "int option"
  u_dueDate :: "int option"
  u_completed :: "bool option"
  u_tags :: "string list option"

definition validate_update :: "int \<Rightarrow> update_fields \<Rightarrow> vmsg list" where
  \<comment> \<open>\<^verbatim>\<open>runValidators: true\<close>: the validators of the paths the update sets\<close>
  "validate_update now u =
     (case u_title u of None \<Rightarrow> [] | Some t \<Rightarrow> v_title (trim t))
     @ (case u_description u of None \<Rightarrow> [] | Some d \<Rightarrow> v_description (trim d))
     @ (case u_category u of None \<Rightarrow> [] | Some c \<Rightarrow> v_category c)
     @ (case u_priority u of None \<Rightarrow> [] | Some p \<Rightarrow> v_priority p)
     @ v_dueDate now (u_dueDate u)
     @ (case u_tags u of None \<Rightarrow> [] | Some ts \<Rightarrow> v_tags (map trim ts))"

definition apply_update :: "int \<Rightarrow> update_fields \<Rightarrow> task \<Rightarrow> task" where
  \<comment> \<open>the \<^verbatim>\<open>$set\<close> of the supplied fields, cast through the schema's setters, and the
      \<^verbatim>\<open>updatedAt\<close> that \<^verbatim>\<open>timestamps: true\<close> adds to every update\<close>
  "apply_update now u t =
     t\<lparr> title := (case u_title u of None \<Rightarrow> title t | Some v \<Rightarrow> trim v),
        description := (case u_description u of None \<Rightarrow> description t | Some v \<Rightarrow> trim v),
        category := (case u_category u of None \<Rightarrow> category t | Some v \<Rightarrow> v),
        priority := (case u_priority u of None \<Rightarrow> priority t | Some v \<Rightarrow> v),
        dueDate := (case u_dueDate u of None \<Rightarrow> dueDate t | Some v \<Rightarrow> Some v),
        completed := (case u_completed u of None \<Rightarrow> completed t | Some v \<Rightarrow> v),
        tags := (case u_tags u of None \<Rightarrow> tags t | Some v \<Rightarrow> map trim v),
        updatedAt := now \<rparr>"

definition findOneAndUpdate ::
  "int \<Rightarrow> string \<Rightarrow> string \<Rightarrow> update_fields \<Rightarrow> task list \<Rightarrow> (vmsg list + task option) \<times> task list" where
  \<comment> \<open>a query operation: update validators run first, the document middleware
      \<^verbatim>\<open>pre('save')\<close> does not run, and \<^verbatim>\<open>new: true\<close> returns the updated document\<close>
  "findOneAndUpdate now taskId uid u store =
     (case validate_update now u of
        e # es \<Rightarrow> (Inl (e # es), store)
      | [] \<Rightarrow>
          (case find (owned taskId uid) store of
             None \<Rightarrow> (Inr None, store)
           | Some t \<Rightarrow>
               (Inr (Some (apply_update now u t)),
                replace_first (owned taskId uid) (apply_update now u t) store)))"

definition update_fields_of :: "task_body \<Rightarrow> update_fields" where
  \<comment> \<open>the object \<^verbatim>\<open>updateFields\<close>: one entry for each field the body defines\<close>
  "update_fields_of b = \<lparr>
     u_title = map_option trim (b_title b),
     u_description = map_option (\<lambda>d. if d = [] then [] else trim d) (b_description b),
     u_category = b_category b,
     u_priority = b_priority b,
     u_dueDate = b_dueDate b,
     u_completed = b_completed b,
     u_tags = b_tags b \<rparr>"

definition blank_title :: "string option \<Rightarrow> bool" where
  \<comment> \<open>\<^verbatim>\<open>title !== undefined && title.trim() === ''\<close>\<close>
  "blank_title x = (case x of None \<Rightarrow> False | Some t \<Rightarrow> trim t = [])"

definition update_task :: "int \<Rightarrow> string \<Rightarrow> string \<Rightarrow> task_body \<Rightarrow> task list \<Rightarrow> task reply \<times> task list" where
  "update_task now uid taskId b store =
     (if \<not> valid_id taskId then (Inl (Failure 400 M_invalid_task_id), store)
      else if priority_out_of_range (b_priority b) then (Inl (Failure 400 M_priority_range), store)
      else if blank_title (b_title b) then (Inl (Failure 400 M_title_required), store)
      else case findOneAndUpdate now taskId uid (update_fields_of b) store of
             (Inl es, store') \<Rightarrow> (Inl (validation_reply es), store')
           | (Inr None, store') \<Rightarrow> (Inl NotFound, store')
           | (Inr (Some updatedTask), store') \<Rightarrow> (Inr updatedTask, store'))"

subsection \<open>DELETE /api/tasks/:id and the handler written for DELETE /api/tasks/completed\<close>

definition delete_task :: "string \<Rightarrow> string \<Rightarrow> task list \<Rightarrow> task reply \<times> task list" where
  "delete_task uid taskId store =
     (if \<not> valid_id taskId then (Inl (Failure 400 M_invalid_task_id), store)
      else case find (owned taskId uid) store of
             None \<Rightarrow> (Inl NotFound, store)
           | Some deletedTask \<Rightarrow> (Inr deletedTask, remove_first (owned taskId uid) store))"

definition delete_completed :: "string \<Rightarrow> task list \<Rightarrow> nat \<times> task list" where
  \<comment> \<open>\<^verbatim>\<open>Task.deleteMany({ userId: req.user.id, completed: true })\<close>\<close>
  "delete_completed uid store =
     (length (filter (\<lambda>t. userId t = uid \<and> completed t) store),
      filter (\<lambda>t. \<not> (userId t = uid \<and> completed t)) store)"

subsection \<open>Numbers read from the query string\<close>

text \<open>
  A JavaScript number that the handlers compute is an \<open>int option\<close>: \<open>None\<close> is a value
  that is not a finite number (\<^verbatim>\<open>NaN\<close>, or the infinity of a division by zero), which
  JSON writes as \<^verbatim>\<open>null\<close>. Integers are exact here; the source rounds beyond \<open>2^53\<close>.
\<close>

definition digit_of :: "nat \<Rightarrow> char \<Rightarrow> nat option" where
  "digit_of radix c =
     (let v = (if is_digit c then Some (code c - 48)
               else if is_lower c then Some (code c - 87)
               else if is_upper c then Some (code c - 55)
               else None)
      in case v of None \<Rightarrow> None | Some d \<Rightarrow> if d < radix then Some d else None)"

definition digit_val :: "nat \<Rightarrow> char \<Rightarrow> nat" where
  "digit_val radix c = (case digit_of radix c of None \<Rightarrow> 0 | Some d \<Rightarrow> d)"

definition strip_sign :: "string \<Rightarrow> bool \<times> string" where
  "strip_sign s =
     (case s of
        [] \<Rightarrow> (False, [])
      | c # r \<Rightarrow> if c = CHR ''-'' then (True, r) else if c = CHR ''+'' then (False, r) else (False, s))"

definition strip_radix :: "string \<Rightarrow> nat \<times> string" where
  "strip_radix s =
     (case s of
        a # b # r \<Rightarrow> if a = CHR ''0'' \<and> (b = CHR ''x'' \<or> b = CHR ''X'') then (16, r) else (10, s)
      | _ \<Rightarrow> (10, s))"

definition parseInt :: "string \<Rightarrow> int option" where
  \<comment> \<open>\<^verbatim>\<open>parseInt(s)\<close> without a radix: white space, a sign, an optional \<^verbatim>\<open>0x\<close>, then the
      longest run of digits; \<^verbatim>\<open>NaN\<close> when there is none\<close>
  "parseInt s =
     (case strip_sign (dropWhile is_space s) of
        (neg, s2) \<Rightarrow>
          (case strip_radix s2 of
             (radix, s3) \<Rightarrow>
               (let ds = takeWhile (\<lambda>c. digit_of radix c \<noteq> None) s3;
                    n = foldl (\<lambda>a c. a * radix + digit_val radix c) 0 ds
                in if ds = [] then None else Some (if neg then - int n else int n))))"

definition parse_param :: "string option \<Rightarrow> int \<Rightarrow> int option" where
  \<comment> \<open>\<^verbatim>\<open>parseInt(x)\<close> for a destructured parameter \<^verbatim>\<open>x = d\<close>: the default stands in for an
      absent parameter only\<close>
  "parse_param x d = (case x of None \<Rightarrow> Some d | Some s \<Rightarrow> parseInt s)"

definition js_mul :: "int option \<Rightarrow> int option \<Rightarrow> int option" where
  "js_mul a b = (case (a, b) of (Some x, Some y) \<Rightarrow> Some (x * y) | _ \<Rightarrow> None)"

definition js_pred :: "int option \<Rightarrow> int option" where
  "js_pred a = map_option (\<lambda>x. x - 1) a"

definition ceil_div :: "nat \<Rightarrow> int option \<Rightarrow> int option" where
  \<comment> \<open>\<^verbatim>\<open>Math.ceil(totalCount / limitNum)\<close>\<close>
  "ceil_div n l =
     (case l of None \<Rightarrow> None | Some d \<Rightarrow> if d = 0 then None else Some (- ((- int n) div d)))"

fun decimal :: "nat \<Rightarrow> string" where
  \<comment> \<open>the decimal text of a number, as a client writes it into the query string\<close>
  "decimal n = (if n < 10 then [char_of (48 + n)] else decimal (n div 10) @ [char_of (48 + n mod 10)])"

declare decimal.simps [simp del]

subsection \<open>GET /api/tasks\<close>

record list_query =
  q_completed :: "string option"
  q_category :: "string option"
  q_priority :: "string option"
  q_dueDate :: "int option"
  q_page :: "string option"
  q_limit :: "string option"
  q_sortBy :: "string option"
  q_sortOrder :: "string option"

text \<open>
  The filter object \<^verbatim>\<open>query\<close> that the handler builds field by field. \<open>fq_priority\<close> is
  \<open>Some None\<close> when \<^verbatim>\<open>parseInt(priority)\<close> is \<^verbatim>\<open>NaN\<close>, which Mongoose refuses to cast.
\<close>

record find_query =
  fq_userId :: string
  fq_completed :: "bool option"
  fq_category :: "string option"
  fq_priority :: "int option option"
  fq_dueDate :: "(int \<times> int) option"

definition day_ms :: int where
  "day_ms = 86400000"

definition build_query :: "string \<Rightarrow> list_query \<Rightarrow> find_query" where
  "build_query uid q = \<lparr>
     fq_userId = uid,
     fq_completed = map_option (\<lambda>c. c = ''true'') (q_completed q),
     fq_category = (case q_category q of None \<Rightarrow> None | Some c \<Rightarrow> if c = [] then None else Some c),
     fq_priority = (case q_priority q of None \<Rightarrow> None | Some p \<Rightarrow> if p = [] then None else Some (parseInt p)),
     fq_dueDate = map_option (\<lambda>d. (d, d + day_ms)) (q_dueDate q) \<rparr>"

definition matches :: "find_query \<Rightarrow> task \<Rightarrow> bool" where
  "matches fq t =
     (userId t = fq_userId fq
      \<and> (case fq_completed fq of None \<Rightarrow> True | Some c \<Rightarrow> completed t = c)
      \<and> (case fq_category fq of None \<Rightarrow> True | Some c \<Rightarrow> category t = c)
      \<and> (case fq_priority fq of None \<Rightarrow> True | Some None \<Rightarrow> False | Some (Some p) \<Rightarrow> priority t = p)
      \<and> (case fq_dueDate fq of
            None \<Rightarrow> True
          | Some (lo, hi) \<Rightarrow> (case dueDate t of None \<Rightarrow> False | Some d \<Rightarrow> lo \<le> d \<and> d < hi)))"

text \<open>
  What the handlers leave to MongoDB and its driver: how two documents compare on a named
  field, which field names a sort accepts, and what \<^verbatim>\<open>skip\<close> and \<^verbatim>\<open>limit\<close> mean when
  they are not a natural number and a positive integer (\<open>None\<close>: the query is rejected;
  \<open>Some (s, l)\<close>: \<open>s\<close> documents are skipped and at most \<open>l\<close> returned, all of them when
  \<open>l\<close> is \<open>None\<close>).
\<close>

record mongo =
  field_le :: "string \<Rightarrow> task \<Rightarrow> task \<Rightarrow> bool"
  sort_key_ok :: "string \<Rightarrow> bool"
  odd_window :: "int option \<Rightarrow> int option \<Rightarrow> (nat \<times> nat option) option"

fun sort_le :: "(string \<Rightarrow> task \<Rightarrow> task \<Rightarrow> bool) \<Rightarrow> (string \<times> bool) list \<Rightarrow> task \<Rightarrow> task \<Rightarrow> bool" where
  "sort_le le [] a b = True"
| "sort_le le ((f, asc) # ks) a b =
     (let ab = (if asc then le f a b else le f b a);
          ba = (if asc then le f b a else le f a b)
      in if ab \<and> ba then sort_le le ks a b else ab)"

fun insert_by :: "('a \<Rightarrow> 'a \<Rightarrow> bool) \<Rightarrow> 'a \<Rightarrow> 'a list \<Rightarrow> 'a list" where
  "insert_by le x [] = [x]"
| "insert_by le x (y # ys) = (if le x y then x # y # ys else y # insert_by le x ys)"

definition sort_by :: "('a \<Rightarrow> 'a \<Rightarrow> bool) \<Rightarrow> 'a list \<Rightarrow> 'a list" where
  "sort_by le xs = foldr (insert_by le) xs []"

definition sort_options :: "string \<Rightarrow> bool \<Rightarrow> (string \<times> bool) list" where
  \<comment> \<open>the handler's \<^verbatim>\<open>sortOptions\<close> after \<^verbatim>\<open>taskSchema.pre(/^find/)\<close> has merged
      \<^verbatim>\<open>{ createdAt: -1 }\<close> into it; \<open>True\<close> is ascending\<close>
  "sort_options sortBy asc =
     (if sortBy = ''createdAt'' then [(''createdAt'', False)]
      else [(sortBy, asc), (''createdAt'', False)])"

definition find_sorted :: "mongo \<Rightarrow> find_query \<Rightarrow> (string \<times> bool) list \<Rightarrow> task list \<Rightarrow> task list option" where
  \<comment> \<open>\<^verbatim>\<open>Task.find(query).sort(sortOptions)\<close>; \<open>None\<close> when the query is rejected\<close>
  "find_sorted db fq opts store =
     (if fq_priority fq = Some None then None
      else if list_all (\<lambda>(f, asc). sort_key_ok db f) opts
      then Some (sort_by (sort_le (field_le db) opts) (filter (matches fq) store))
      else None)"

definition window :: "mongo \<Rightarrow> int option \<Rightarrow> int option \<Rightarrow> (nat \<times> nat option) option" where
  "window db skip limitNum =
     (case (skip, limitNum) of
        (Some s, Some l) \<Rightarrow> if 0 \<le> s \<and> 1 \<le> l then Some (nat s, Some (nat l)) else odd_window db skip limitNum
      | _ \<Rightarrow> odd_window db skip limitNum)"

definition skip_limit :: "mongo \<Rightarrow> int option \<Rightarrow> int option \<Rightarrow> task list \<Rightarrow> task list option" where
  \<comment> \<open>\<^verbatim>\<open>.skip(skip).limit(limitNum)\<close>\<close>
  "skip_limit db skip limitNum xs =
     (case window db skip limitNum of
        None \<Rightarrow> None
      | Some (s, None) \<Rightarrow> Some (drop s xs)
      | Some (s, Some l) \<Rightarrow> Some (take l (drop s xs)))"

record pagination =
  currentPage :: "int option"
  totalPages :: "int option"
  totalItems :: nat
  itemsPerPage :: "int option"

definition sort_options_of :: "list_query \<Rightarrow> (string \<times> bool) list" where
  \<comment> \<open>\<^verbatim>\<open>sortOptions[sortBy] = sortOrder === 'asc' ? 1 : -1\<close> with the defaults
      \<^verbatim>\<open>sortBy = 'createdAt'\<close> and \<^verbatim>\<open>sortOrder = 'desc'\<close>\<close>
  "sort_options_of q =
     sort_options (case q_sortBy q of None \<Rightarrow> ''createdAt'' | Some f \<Rightarrow> f)
                  (case q_sortOrder q of None \<Rightarrow> False | Some d \<Rightarrow> d = ''asc'')"

definition list_tasks :: "mongo \<Rightarrow> string \<Rightarrow> list_query \<Rightarrow> task list \<Rightarrow> (task list \<times> pagination) reply" where
  "list_tasks db uid q store =
     (let query = build_query uid q;
          sortOptions = sort_options_of q;
          pageNum = parse_param (q_page q) 1;
          limitNum = parse_param (q_limit q) 10;
          skip = js_mul (js_pred pageNum) limitNum
      in case find_sorted db query sortOptions store of
           None \<Rightarrow> Inl (Failure 500 M_list_error)
         | Some found \<Rightarrow>
             (case skip_limit db skip limitNum found of
                None \<Rightarrow> Inl (Failure 500 M_list_error)
              | Some tasks \<Rightarrow>
                  (let totalCount = length (filter (matches query) store)
                   in Inr (tasks, \<lparr> currentPage = pageNum,
                                    totalPages = ceil_div totalCount limitNum,
                                    totalItems = totalCount,
                                    itemsPerPage = limitNum \<rparr>))))"

definition tasks_of :: "(task list \<times> pagination) reply \<Rightarrow> task list" where
  \<comment> \<open>the \<^verbatim>\<open>tasks\<close> array of a reply; a failing reply carries none\<close>
  "tasks_of r = (case r of Inl e \<Rightarrow> [] | Inr (ts, pg) \<Rightarrow> ts)"

subsection \<open>GET /api/tasks/stats\<close>

record stats =
  st_total :: nat
  st_completed :: nat
  st_pending :: nat
  st_completionRate :: nat

definition getUserStats :: "string \<Rightarrow> task list \<Rightarrow> stats" where
  \<comment> \<open>the two groups of the aggregation, then \<^verbatim>\<open>Math.round(completed / total * 100)\<close>\<close>
  "getUserStats uid store =
     (let c = length (filter (\<lambda>t. userId t = uid \<and> completed t) store);
          p = length (filter (\<lambda>t. userId t = uid \<and> \<not> completed t) store);
          n = c + p
      in \<lparr> st_total = n, st_completed = c, st_pending = p,
           st_completionRate = (if 0 < n then (200 * c + n) div (2 * n) else 0) \<rparr>)"

definition getUpcomingTasks :: "mongo \<Rightarrow> int \<Rightarrow> string \<Rightarrow> int \<Rightarrow> task list \<Rightarrow> task list option" where
  \<comment> \<open>the closed range \<^verbatim>\<open>$gte: today, $lte: futureDate\<close> is the half-open one up to the
      next millisecond\<close>
  "getUpcomingTasks db now uid days store =
     find_sorted db
       \<lparr> fq_userId = uid, fq_completed = Some False, fq_category = None, fq_priority = None,
         fq_dueDate = Some (now, now + days * day_ms + 1) \<rparr>
       [(''dueDate'', True), (''createdAt'', False)] store"

definition task_stats :: "mongo \<Rightarrow> int \<Rightarrow> string \<Rightarrow> task list \<Rightarrow> (stats \<times> task list) reply" where
  "task_stats db now uid store =
     (case getUpcomingTasks db now uid 3 store of
        None \<Rightarrow> Inl (Failure 500 M_internal_error)
      | Some upcomingTasks \<Rightarrow> Inr (getUserStats uid store, take 5 upcomingTasks))"

subsection \<open>The router of /api/tasks\<close>

text \<open>
  Express tries the routes of a router in the order in which they were registered and
  runs the first one whose method and path pattern match; a handler that sends a reply
  ends the search. A path below the mount point is its list of segments. A literal
  segment is compared without regard to case, and \<^verbatim>\<open>:id\<close> matches any one non-empty
  segment. A request no route takes reaches the application's \<^verbatim>\<open>app.use('*')\<close>.
\<close>

datatype verb = GET | POST | PUT | DELETE

datatype pattern = P_root | P_lit string | P_param

datatype handler = H_create | H_list | H_stats | H_get | H_update | H_delete | H_delete_completed

definition routes :: "(verb \<times> pattern \<times> handler) list" where
  \<comment> \<open>in the order of the \<^verbatim>\<open>router.METHOD\<close> calls of \<^verbatim>\<open>routes/tasks.js\<close>\<close>
  "routes =
     [ (POST, P_root, H_create),
       (GET, P_root, H_list),
       (GET, P_lit ''stats'', H_stats),
       (GET, P_param, H_get),
       (PUT, P_param, H_update),
       (DELETE, P_param, H_delete),
       (DELETE, P_lit ''completed'', H_delete_completed) ]"

fun path_match :: "pattern \<Rightarrow> string list \<Rightarrow> string option" where
  \<comment> \<open>the value bound to \<^verbatim>\<open>req.params.id\<close> when the pattern matches (empty without a parameter)\<close>
  "path_match P_root segs = (if segs = [] then Some [] else None)"
| "path_match (P_lit l) segs = (if map toLowerCase segs = [toLowerCase l] then Some [] else None)"
| "path_match P_param segs = (case segs of [s] \<Rightarrow> if s = [] then None else Some s | _ \<Rightarrow> None)"

fun dispatch :: "(verb \<times> pattern \<times> handler) list \<Rightarrow> verb \<Rightarrow> string list \<Rightarrow> (handler \<times> string) option" where
  "dispatch [] v segs = None"
| "dispatch ((v', pat, h) # rs) v segs =
     (if v' = v then
        (case path_match pat segs of Some param \<Rightarrow> Some (h, param) | None \<Rightarrow> dispatch rs v segs)
      else dispatch rs v segs)"

datatype payload =
    R_task task
  | R_tasks "task list" pagination
  | R_stats stats "task list"
  | R_deleted nat

record request =
  rq_verb :: verb
  rq_path :: "string list"
  rq_query :: list_query
  rq_body :: task_body

definition empty_query :: list_query where
  "empty_query = \<lparr> q_completed = None, q_category = None, q_priority = None, q_dueDate = None,
                    q_page = None, q_limit = None, q_sortBy = None, q_sortOrder = None \<rparr>"

definition empty_body :: task_body where
  "empty_body = \<lparr> b_title = None, b_description = None, b_category = None, b_priority = None,
                   b_dueDate = None, b_completed = None, b_tags = None, b_userId = None,
                   b_completedAt = None, b_createdAt = None \<rparr>"

definition run_handler ::
  "mongo \<Rightarrow> int \<Rightarrow> string \<Rightarrow> string \<Rightarrow> handler \<Rightarrow> string \<Rightarrow> request \<Rightarrow> task list \<Rightarrow> payload reply \<times> task list" where
  "run_handler db now newId uid h param rq store =
     (case h of
        H_create \<Rightarrow> (case create_task now newId uid (rq_body rq) store of (r, store') \<Rightarrow> (map_sum id R_task r, store'))
      | H_list \<Rightarrow> (map_sum id (\<lambda>(ts, pg). R_tasks ts pg) (list_tasks db uid (rq_query rq) store), store)
      | H_stats \<Rightarrow> (map_sum id (\<lambda>(st, up). R_stats st up) (task_stats db now uid store), store)
      | H_get \<Rightarrow> (map_sum id R_task (get_task uid param store), store)
      | H_update \<Rightarrow> (case update_task now uid param (rq_body rq) store of (r, store') \<Rightarrow> (map_sum id R_task r, store'))
      | H_delete \<Rightarrow> (case delete_task uid param store of (r, store') \<Rightarrow> (map_sum id R_task r, store'))
      | H_delete_completed \<Rightarrow> (case delete_completed uid store of (n, store') \<Rightarrow> (Inr (R_deleted n), store')))"

definition tasks_router ::
  "mongo \<Rightarrow> int \<Rightarrow> string \<Rightarrow> string \<Rightarrow> request \<Rightarrow> task list \<Rightarrow> payload reply \<times> task list" where
  \<comment> \<open>the routes below \<^verbatim>\<open>router.use(authenticateToken)\<close>, for the identity it attached\<close>
  "tasks_router db now newId uid rq store =
     (case dispatch routes (rq_verb rq) (rq_path rq) of
        None \<Rightarrow> (Inl (Failure 404 M_route_not_found), store)
      | Some (h, param) \<Rightarrow> run_handler db now newId uid h param rq store)"

subsection \<open>Tokens\<close>

text \<open>
  A token is either text that does not decode to the three parts of a JWT, or a payload
  with a signature. The signing algorithm is a parameter \<open>mac\<close>; \<^verbatim>\<open>jwt.verify\<close> first
  checks the structure and the signature and only then the expiry, against the clock in
  seconds.
\<close>

record claims =
  c_id :: string
  c_email :: string
  c_iat :: int
  c_exp :: int

datatype jwt = Malformed string | Signed claims string

datatype jwt_error = JsonWebTokenError | TokenExpiredError

definition JWT_SECRET :: "string option \<Rightarrow> string" where
  \<comment> \<open>\<^verbatim>\<open>process.env.JWT_SECRET || 'your-secret-key'\<close>\<close>
  "JWT_SECRET env = (case env of None \<Rightarrow> ''your-secret-key'' | Some k \<Rightarrow> if k = [] then ''your-secret-key'' else k)"

definition seconds :: "int \<Rightarrow> int" where
  "seconds now = now div 1000"

definition jwt_sign :: "(string \<Rightarrow> claims \<Rightarrow> string) \<Rightarrow> string \<Rightarrow> int \<Rightarrow> string \<Rightarrow> string \<Rightarrow> jwt" where
  \<comment> \<open>\<^verbatim>\<open>jwt.sign({ id, email }, secret, { expiresIn: '7d' })\<close>\<close>
  "jwt_sign mac secret now i e =
     (let payload = \<lparr> c_id = i, c_email = e, c_iat = seconds now, c_exp = seconds now + 7 * 24 * 60 * 60 \<rparr>
      in Signed payload (mac secret payload))"

definition jwt_verify :: "(string \<Rightarrow> claims \<Rightarrow> string) \<Rightarrow> string \<Rightarrow> int \<Rightarrow> jwt \<Rightarrow> jwt_error + claims" where
  "jwt_verify mac secret now tok =
     (case tok of
        Malformed text \<Rightarrow> Inl JsonWebTokenError
      | Signed payload sig \<Rightarrow>
          if sig \<noteq> mac secret payload then Inl JsonWebTokenError
          else if c_exp payload \<le> seconds now then Inl TokenExpiredError
          else Inr payload)"

text \<open>
  The \<^verbatim>\<open>Authorization\<close> header: \<open>Bearer tok\<close> is the text \<^verbatim>\<open>'Bearer '\<close> followed by the
  token, \<open>Other\<close> any value that does not start with \<^verbatim>\<open>'Bearer '\<close>.
\<close>

datatype authorization = Bearer jwt | Other string

record identity =
  auth_id :: string
  auth_email :: string

definition authenticateToken ::
  "(string \<Rightarrow> claims \<Rightarrow> string) \<Rightarrow> string option \<Rightarrow> int \<Rightarrow> authorization option \<Rightarrow> identity reply" where
  "authenticateToken mac env now authHeader =
     (case authHeader of
        None \<Rightarrow> Inl MissingCredentials
      | Some (Other text) \<Rightarrow> Inl MissingCredentials
      | Some (Bearer token) \<Rightarrow>
          (case jwt_verify mac (JWT_SECRET env) now token of
             Inr decoded \<Rightarrow> Inr \<lparr> auth_id = c_id decoded, auth_email = c_email decoded \<rparr>
           | Inl JsonWebTokenError \<Rightarrow> Inl InvalidToken
           | Inl TokenExpiredError \<Rightarrow> Inl ExpiredToken))"

definition tasks_api ::
  "(string \<Rightarrow> claims \<Rightarrow> string) \<Rightarrow> string option \<Rightarrow> mongo \<Rightarrow> int \<Rightarrow> string
     \<Rightarrow> authorization option \<Rightarrow> request \<Rightarrow> task list \<Rightarrow> payload reply \<times> task list" where
  \<comment> \<open>\<^verbatim>\<open>app.use('/api/tasks', taskRoutes)\<close>: the middleware, then the routes\<close>
  "tasks_api mac env db now newId authHeader rq store =
     (case authenticateToken mac env now authHeader of
        Inl e \<Rightarrow> (Inl e, store)
      | Inr user \<Rightarrow> tasks_router db now newId (auth_id user) rq store)"

subsection \<open>The e-mail pattern\<close>

text \<open>
  Regular expressions over character classes, matched by derivatives. \<open>emailRegex\<close> is
  \<^verbatim>\<open>/^\w+([.-]?\w+)*@\w+([.-]?\w+)*(\.\w{2,3})+$/\<close>; both anchors are there, so the whole
  text has to match.
\<close>

datatype rx = Zero | One | Cls "char \<Rightarrow> bool" | Alt rx rx | Seq rx rx | Star rx

fun nullable :: "rx \<Rightarrow> bool" where
  "nullable Zero = False"
| "nullable One = True"
| "nullable (Cls p) = False"
| "nullable (Alt r s) = (nullable r \<or> nullable s)"
| "nullable (Seq r s) = (nullable r \<and> nullable s)"
| "nullable (Star r) = True"

fun deriv :: "char \<Rightarrow> rx \<Rightarrow> rx" where
  "deriv c Zero = Zero"
| "deriv c One = Zero"
| "deriv c (Cls p) = (if p c then One else Zero)"
| "deriv c (Alt r s) = Alt (deriv c r) (deriv c s)"
| "deriv c (Seq r s) =
     (if nullable r then Alt (Seq (deriv c r) s) (deriv c s) else Seq (deriv c r) s)"
| "deriv c (Star r) = Seq (deriv c r) (Star r)"

definition rx_test :: "rx \<Rightarrow> string \<Rightarrow> bool" where
  "rx_test r s = nullable (foldl (\<lambda>r c. deriv c r) r s)"

definition rx_plus :: "rx \<Rightarrow> rx" where
  "rx_plus r = Seq r (Star r)"

definition rx_opt :: "rx \<Rightarrow> rx" where
  "rx_opt r = Alt One r"

definition rx_words :: rx where
  \<comment> \<open>\<^verbatim>\<open>\w+([.-]?\w+)*\<close>\<close>
  "rx_words =
     Seq (rx_plus (Cls is_word))
         (Star (Seq (rx_opt (Cls (\<lambda>c. c = CHR ''.'' \<or> c = CHR ''-''))) (rx_plus (Cls is_word))))"

definition rx_tld :: rx where
  \<comment> \<open>\<^verbatim>\<open>\.\w{2,3}\<close>\<close>
  "rx_tld = Seq (Cls (\<lambda>c. c = CHR ''.'')) (Seq (Cls is_word) (Seq (Cls is_word) (rx_opt (Cls is_word))))"

definition emailRegex :: rx where
  "emailRegex = Seq rx_words (Seq (Cls (\<lambda>c. c = CHR ''@'')) (Seq rx_words (rx_plus rx_tld)))"

fun alphabet :: "rx \<Rightarrow> char \<Rightarrow> bool" where
  \<comment> \<open>the characters a pattern mentions\<close>
  "alphabet Zero c = False"
| "alphabet One c = False"
| "alphabet (Cls p) c = p c"
| "alphabet (Alt r s) c = (alphabet r c \<or> alphabet s c)"
| "alphabet (Seq r s) c = (alphabet r c \<or> alphabet s c)"
| "alphabet (Star r) c = alphabet r c"

fun void :: "rx \<Rightarrow> bool" where
  \<comment> \<open>a sufficient test for a pattern that matches nothing\<close>
  "void Zero = True"
| "void One = False"
| "void (Cls p) = False"
| "void (Alt r s) = (void r \<and> void s)"
| "void (Seq r s) = (void r \<or> void s)"
| "void (Star r) = False"

subsection \<open>The User schema and /api/auth\<close>

text \<open>
  \<open>password\<close> holds what the pre-save hook stored, the bcrypt hash. Hashing (with its
  salt) and comparison are parameters. The e-mail path has the setters \<^verbatim>\<open>lowercase\<close>
  and \<^verbatim>\<open>trim\<close>, which Mongoose applies to a value it stores and to a value it casts in
  a query filter.
\<close>

record user =
  user_id :: string
  email :: string
  password :: string
  name :: string
  subscription :: string
  isActive :: bool
  user_createdAt :: int
  user_updatedAt :: int

record public_user =
  pu_id :: string
  pu_email :: string
  pu_name :: string
  pu_subscription :: string
  pu_isActive :: bool
  pu_createdAt :: int
  pu_updatedAt :: int

definition toJSON :: "user \<Rightarrow> public_user" where
  \<comment> \<open>\<^verbatim>\<open>userSchema.methods.toJSON\<close>: the document without its password\<close>
  "toJSON u = \<lparr> pu_id = user_id u, pu_email = email u, pu_name = name u,
                pu_subscription = subscription u, pu_isActive = isActive u,
                pu_createdAt = user_createdAt u, pu_updatedAt = user_updatedAt u \<rparr>"

definition cast_email :: "string \<Rightarrow> string" where
  "cast_email e = trim (toLowerCase e)"

definition findOne_email :: "string \<Rightarrow> user list \<Rightarrow> user option" where
  \<comment> \<open>\<^verbatim>\<open>User.findOne({ email: e })\<close>\<close>
  "findOne_email e users = find (\<lambda>u. email u = cast_email e) users"

definition generateToken :: "(string \<Rightarrow> claims \<Rightarrow> string) \<Rightarrow> string option \<Rightarrow> int \<Rightarrow> user \<Rightarrow> jwt" where
  "generateToken mac env now u = jwt_sign mac (JWT_SECRET env) now (user_id u) (email u)"

definition falsy :: "string option \<Rightarrow> bool" where
  \<comment> \<open>\<^verbatim>\<open>!x\<close> for a text field: absent or empty\<close>
  "falsy x = (case x of None \<Rightarrow> True | Some s \<Rightarrow> s = [])"

definition text_of :: "string option \<Rightarrow> string" where
  "text_of x = (case x of None \<Rightarrow> [] | Some s \<Rightarrow> s)"

definition validate_user :: "string \<Rightarrow> string \<Rightarrow> string \<Rightarrow> vmsg list" where
  \<comment> \<open>document validation of a new user, on the values after the setters\<close>
  "validate_user e pw n =
     (if rx_test emailRegex e then [] else [V_email_match])
     @ (if length pw < 6 then [V_password_minlength] else [])
     @ (if n = [] then [V_name_required] else if 50 < length n then [V_name_maxlength] else [])"

record register_body =
  r_name :: "string option"
  r_email :: "string option"
  r_password :: "string option"

definition register_user ::
  "(string \<Rightarrow> claims \<Rightarrow> string) \<Rightarrow> (string \<Rightarrow> string \<Rightarrow> string) \<Rightarrow> string option \<Rightarrow> int \<Rightarrow> string \<Rightarrow> string
     \<Rightarrow> register_body \<Rightarrow> user list \<Rightarrow> (public_user \<times> jwt) reply \<times> user list" where
  \<comment> \<open>\<open>hash salt pw\<close> is \<^verbatim>\<open>bcrypt.hash(pw, salt)\<close> for the salt \<^verbatim>\<open>genSalt(12)\<close> drew\<close>
  "register_user mac hash env now newId salt b users =
     (if falsy (r_name b) \<or> falsy (r_email b) \<or> falsy (r_password b)
      then (Inl (Failure 400 M_register_fields_required), users)
      else if \<not> rx_test emailRegex (text_of (r_email b))
      then (Inl (Failure 400 M_invalid_email), users)
      else if length (text_of (r_password b)) < 6
      then (Inl (Failure 400 M_password_short), users)
      else case findOne_email (text_of (r_email b)) users of
             Some existingUser \<Rightarrow> (Inl DuplicateEmail, users)
           | None \<Rightarrow>
               (let e = cast_email (trim (toLowerCase (text_of (r_email b))));
                    n = trim (trim (text_of (r_name b)))
                in case validate_user e (text_of (r_password b)) n of
                     v # vs \<Rightarrow> (Inl (validation_reply (v # vs)), users)
                   | [] \<Rightarrow>
                       if list_ex (\<lambda>u. email u = e) users
                       then (Inl (Failure 500 M_internal_error), users)
                       else
                         let newUser = \<lparr> user_id = newId, email = e,
                                         password = hash salt (text_of (r_password b)),
                                         name = n, subscription = ''free'', isActive = True,
                                         user_createdAt = now, user_updatedAt = now \<rparr>
                         in (Inr (toJSON newUser, generateToken mac env now newUser), users @ [newUser])))"

record login_body =
  l_email :: "string option"
  l_password :: "string option"

definition login ::
  "(string \<Rightarrow> claims \<Rightarrow> string) \<Rightarrow> (string \<Rightarrow> string \<Rightarrow> bool) \<Rightarrow> string option \<Rightarrow> int
     \<Rightarrow> login_body \<Rightarrow> user list \<Rightarrow> (public_user \<times> jwt) reply \<times> user list" where
  \<comment> \<open>\<open>compare pw h\<close> is \<^verbatim>\<open>bcrypt.compare(pw, h)\<close>\<close>
  "login mac compare env now b users =
     (if falsy (l_email b) \<or> falsy (l_password b)
      then (Inl (Failure 400 M_login_fields_required), users)
      else case findOne_email (trim (toLowerCase (text_of (l_email b)))) users of
             None \<Rightarrow> (Inl InvalidCredentials, users)
           | Some u \<Rightarrow>
               if \<not> isActive u then (Inl AccountDeactivated, users)
               else if \<not> compare (text_of (l_password b)) (password u) then (Inl InvalidCredentials, users)
               else
                 let token = generateToken mac env now u;
                     saved = u\<lparr>user_updatedAt := now\<rparr>
                 in (Inr (toJSON saved, token), replace_first (\<lambda>v. user_id v = user_id u) saved users))"

definition current_user ::
  "(string \<Rightarrow> claims \<Rightarrow> string) \<Rightarrow> string option \<Rightarrow> int \<Rightarrow> authorization option \<Rightarrow> user list \<Rightarrow> public_user reply" where
  \<comment> \<open>GET /api/auth/me\<close>
  "current_user mac env now authHeader users =
     (case authHeader of
        None \<Rightarrow> Inl MissingCredentials
      | Some (Other text) \<Rightarrow> Inl MissingCredentials
      | Some (Bearer token) \<Rightarrow>
          (case jwt_verify mac (JWT_SECRET env) now token of
             Inl JsonWebTokenError \<Rightarrow> Inl InvalidToken
           | Inl TokenExpiredError \<Rightarrow> Inl ExpiredToken
           | Inr decoded \<Rightarrow>
               (case find (\<lambda>u. user_id u = c_id decoded) users of
                  None \<Rightarrow> Inl (Failure 401 M_invalid_user)
                | Some u \<Rightarrow>
                    if \<not> isActive u then Inl (Failure 401 M_account_deactivated_me)
                    else Inr (toJSON u))))"

subsection \<open>Concrete users, tasks and stores\<close>

definition alice :: string where
  "alice = ''aaaaaaaaaaaaaaaaaaaaaaaa''"

definition bob :: string where
  "bob = ''bbbbbbbbbbbbbbbbbbbbbbbb''"

definition milk_id :: string where
  "milk_id = ''0123456789abcdef01234567''"

definition milk :: task where
  \<comment> \<open>what \<^verbatim>\<open>POST /api/tasks {title: "Buy milk", priority: 3}\<close> stores for alice at time 1000\<close>
  "milk = \<lparr> tid = milk_id, userId = alice, title = ''Buy milk'', description = [],
            category = ''personal'', priority = 3, dueDate = None, completed = False,
            completedAt = None, tags = [], createdAt = 1000, updatedAt = 1000 \<rparr>"

definition nth_task :: "int \<Rightarrow> task" where
  \<comment> \<open>a task of alice created at time \<open>n\<close>\<close>
  "nth_task n = milk\<lparr>createdAt := n, updatedAt := n\<rparr>"

definition by_date :: "string \<Rightarrow> task \<Rightarrow> task \<Rightarrow> bool" where
  \<comment> \<open>an ordering for the examples: by number on \<^verbatim>\<open>createdAt\<close> and \<^verbatim>\<open>priority\<close>\<close>
  "by_date f a b =
     (if f = ''createdAt'' then createdAt a \<le> createdAt b
      else if f = ''priority'' then priority a \<le> priority b
      else True)"

definition strict_db :: mongo where
  \<comment> \<open>a store that rejects every skip or limit that is not a natural number and a positive integer\<close>
  "strict_db = \<lparr> field_le = by_date, sort_key_ok = (\<lambda>f. True), odd_window = (\<lambda>s l. None) \<rparr>"

definition lax_db :: mongo where
  \<comment> \<open>a store that reads every such skip as 0 and every such limit as no limit\<close>
  "lax_db = \<lparr> field_le = by_date, sort_key_ok = (\<lambda>f. True), odd_window = (\<lambda>s l. Some (0, None)) \<rparr>"

definition toy_mac :: "string \<Rightarrow> claims \<Rightarrow> string" where
  "toy_mac k c = k @ c_id c @ c_email c"

definition ann :: user where
  "ann = \<lparr> user_id = alice, email = ''a@x.com'', password = ''hash-of-secret1'', name = ''Ann'',
           subscription = ''free'', isActive = True, user_createdAt = 1000, user_updatedAt = 1000 \<rparr>"

definition dan :: user where
  \<comment> \<open>a deactivated account\<close>
  "dan = \<lparr> user_id = bob, email = ''d@x.com'', password = ''hash-of-secret2'', name = ''Dan'',
           subscription = ''free'', isActive = False, user_createdAt = 1000, user_updatedAt = 1000 \<rparr>"

definition toy_compare :: "string \<Rightarrow> string \<Rightarrow> bool" where
  "toy_compare pw h = (h = ''hash-of-'' @ pw)"

definition toy_hash :: "string \<Rightarrow> string \<Rightarrow> string" where
  "toy_hash salt pw = ''hash-of-'' @ pw"

definition three_tasks :: "task list" where
  "three_tasks = [nth_task 1, nth_task 2, nth_task 3]"

definition two_per_page :: list_query where
  "two_per_page = empty_query\<lparr>q_limit := Some ''2''\<rparr>"

section \<open>Properties\<close>

subsection \<open>Ownership isolation\<close>

lemma find_owned_None:
  assumes "t \<in> set store" "userId t \<noteq> uid" "distinct (map tid store)"
  shows "find (owned (tid t) uid) store = None"
proof -
  have "\<not> (\<exists>x\<in>set store. owned (tid t) uid x)"
  proof
    assume "\<exists>x\<in>set store. owned (tid t) uid x"
    then obtain x where x: "x \<in> set store" "tid x = tid t" "userId x = uid"
      by (auto simp: owned_def)
    from assms(3) have "inj_on tid (set store)" by (simp add: distinct_map)
    with x(1,2) assms(1) have "x = t" by (auto dest: inj_onD)
    with x(3) assms(2) show False by simp
  qed
  then show ?thesis by (simp add: find_None_iff)
qed

lemma set_insert_by: "set (insert_by le x xs) = insert x (set xs)"
  by (induction xs) auto

lemma set_sort_by: "set (sort_by le xs) = set xs"
  by (induction xs) (auto simp: sort_by_def set_insert_by)

lemma length_insert_by: "length (insert_by le x xs) = Suc (length xs)"
  by (induction xs) auto

lemma length_sort_by: "length (sort_by le xs) = length xs"
  by (induction xs) (auto simp: sort_by_def length_insert_by)

lemma skip_limit_subset:
  assumes "skip_limit db s l xs = Some ts"
  shows "set ts \<subseteq> set xs"
proof -
  from assms obtain n m where "ts = drop n xs \<or> ts = take m (drop n xs)"
    by (auto simp: skip_limit_def split: option.splits prod.splits)
  then show ?thesis
    by (metis set_drop_subset set_take_subset order_trans)
qed

lemma list_tasks_owner:
  assumes "list_tasks db uid q store = Inr (ts, pg)" "x \<in> set ts"
  shows "x \<in> set store \<and> userId x = uid"
proof -
  from assms(1) obtain found where
    f: "find_sorted db (build_query uid q) (sort_options_of q) store = Some found"
    and s: "skip_limit db (js_mul (js_pred (parse_param (q_page q) 1)) (parse_param (q_limit q) 10)) (parse_param (q_limit q) 10) found = Some ts"
    by (auto simp: list_tasks_def Let_def split: option.splits)
  from s have "set ts \<subseteq> set found"
    by (rule skip_limit_subset)
  moreover from f have "set found = set (filter (matches (build_query uid q)) store)"
    by (auto simp: find_sorted_def set_sort_by split: if_splits)
  ultimately have "x \<in> set store" "matches (build_query uid q) x" using assms(2) by auto
  then show ?thesis by (simp add: matches_def build_query_def)
qed

text \<open>
  C1, as the handlers have it. Let \<open>t\<close> be a stored task that does not belong to the
  caller \<open>uid\<close>, in a collection whose identifiers are unique and well formed. Then
  \<open>get\<close> and \<open>delete\<close> with the caller's identity fail with NotFound (404) and leave the
  collection as it is; \<open>update\<close> leaves the collection as it is and fails with NotFound
  (404) when its body passes validation, and otherwise with the 400 of the check that
  rejects the body, which comes before the lookup; no reply is a "forbidden"; and no
  page that \<open>list\<close> returns to the caller contains \<open>t\<close>.
\<close>

theorem C1_isolation:
  assumes "t \<in> set store" and "userId t \<noteq> uid" and "distinct (map tid store)" and "valid_id (tid t)"
  shows "get_task uid (tid t) store = Inl NotFound
       \<and> delete_task uid (tid t) store = (Inl NotFound, store)
       \<and> update_task now uid (tid t) b store =
           (if priority_out_of_range (b_priority b) then (Inl (Failure 400 M_priority_range), store)
            else if blank_title (b_title b) then (Inl (Failure 400 M_title_required), store)
            else if validate_update now (update_fields_of b) = [] then (Inl NotFound, store)
            else (Inl (validation_reply (validate_update now (update_fields_of b))), store))
       \<and> (\<forall>ts pg. list_tasks db uid q store = Inr (ts, pg) \<longrightarrow> t \<notin> set ts)"
proof -
  have none: "find (owned (tid t) uid) store = None"
    using assms(1-3) by (rule find_owned_None)
  have g: "get_task uid (tid t) store = Inl NotFound"
    using none assms(4) by (simp add: get_task_def)
  have d: "delete_task uid (tid t) store = (Inl NotFound, store)"
    using none assms(4) by (simp add: delete_task_def)
  have u: "update_task now uid (tid t) b store =
           (if priority_out_of_range (b_priority b) then (Inl (Failure 400 M_priority_range), store)
            else if blank_title (b_title b) then (Inl (Failure 400 M_title_required), store)
            else if validate_update now (update_fields_of b) = [] then (Inl NotFound, store)
            else (Inl (validation_reply (validate_update now (update_fields_of b))), store))"
    using none assms(4) by (simp add: update_task_def findOneAndUpdate_def split: list.splits)
  have l: "\<forall>ts pg. list_tasks db uid q store = Inr (ts, pg) \<longrightarrow> t \<notin> set ts"
    using list_tasks_owner assms(2) by blast
  from g d u l show ?thesis by blast
qed

lemma valid_milk_id: "valid_id milk_id"
  by code_simp

lemma list_bob_empty:
  "list_tasks strict_db bob empty_query [milk]
     = Inr ([], \<lparr> currentPage = Some 1, totalPages = Some 0, totalItems = 0, itemsPerPage = Some 10 \<rparr>)"
  by (simp add: list_tasks_def empty_query_def build_query_def sort_options_of_def sort_options_def
      parse_param_def js_mul_def js_pred_def find_sorted_def strict_db_def matches_def milk_def
      alice_def bob_def sort_by_def skip_limit_def window_def ceil_div_def Let_def)

theorem C1_isolation_witness:
  "milk \<in> set [milk] \<and> userId milk \<noteq> bob \<and> distinct (map tid [milk]) \<and> valid_id (tid milk)
   \<and> get_task bob milk_id [milk] = Inl NotFound
   \<and> delete_task bob milk_id [milk] = (Inl NotFound, [milk])
   \<and> update_task 2000 bob milk_id (empty_body\<lparr>b_completed := Some True\<rparr>) [milk] = (Inl NotFound, [milk])
   \<and> list_tasks strict_db bob empty_query [milk]
       = Inr ([], \<lparr> currentPage = Some 1, totalPages = Some 0, totalItems = 0, itemsPerPage = Some 10 \<rparr>)"
proof -
  have a: "milk \<in> set [milk]" by simp
  have b: "userId milk \<noteq> bob" by (simp add: milk_def alice_def bob_def)
  have c: "distinct (map tid [milk])" by simp
  have d: "valid_id (tid milk)" using valid_milk_id by (simp add: milk_def)
  have e: "\<not> priority_out_of_range (b_priority (empty_body\<lparr>b_completed := Some True\<rparr>))"
    by (simp add: empty_body_def priority_out_of_range_def)
  have f: "\<not> blank_title (b_title (empty_body\<lparr>b_completed := Some True\<rparr>))"
    by (simp add: empty_body_def blank_title_def)
  have g: "validate_update 2000 (update_fields_of (empty_body\<lparr>b_completed := Some True\<rparr>)) = []"
    by (simp add: empty_body_def validate_update_def update_fields_of_def v_dueDate_def)
  have m: "tid milk = milk_id" by (simp add: milk_def)
  from C1_isolation [OF a b c d, of 2000 "empty_body\<lparr>b_completed := Some True\<rparr>" strict_db empty_query]
  show ?thesis using a b c d e f g m list_bob_empty by auto
qed

text \<open>
  C1 as stated fails: bob's update of alice's task with the priority 9 is answered with
  400, not with NotFound.
\<close>

theorem C1_counterexample:
  "alice \<noteq> bob \<and> userId milk = alice \<and> milk \<in> set [milk]
   \<and> update_task 2000 bob (tid milk) (empty_body\<lparr>b_priority := Some 9\<rparr>) [milk]
       = (Inl (Failure 400 M_priority_range), [milk])
   \<and> Failure 400 M_priority_range \<noteq> NotFound"
  using valid_milk_id
  by (simp add: alice_def bob_def milk_def update_task_def empty_body_def priority_out_of_range_def)

subsection \<open>The completed / completedAt pair\<close>

lemma pre_save_new_task:
  "completed t = False \<Longrightarrow> completedAt t = None \<Longrightarrow> pre_save now m t = t"
  by (simp add: pre_save_def)

lemma create_task_invariant:
  assumes "create_task now newId uid b store = (Inr t, store')"
  shows "completed t \<longleftrightarrow> completedAt t \<noteq> None"
  using assms
  by (auto simp: create_task_def save_new_def pre_save_def Let_def
           split: option.splits if_splits list.splits)

lemma update_keeps_completedAt:
  assumes "update_task now uid taskId b store = (Inr t', store')"
  shows "\<exists>t. find (owned taskId uid) store = Some t
           \<and> completedAt t' = completedAt t
           \<and> completed t' = (case b_completed b of None \<Rightarrow> completed t | Some c \<Rightarrow> c)"
proof -
  from assms obtain t where f: "find (owned taskId uid) store = Some t"
    and t': "t' = apply_update now (update_fields_of b) t"
    by (auto simp: update_task_def findOneAndUpdate_def split: if_splits list.splits option.splits)
  have "completedAt (apply_update now (update_fields_of b) t) = completedAt t"
    by (simp add: apply_update_def)
  moreover have "completed (apply_update now (update_fields_of b) t)
                  = (case b_completed b of None \<Rightarrow> completed t | Some c \<Rightarrow> c)"
    by (simp add: apply_update_def update_fields_of_def)
  ultimately show ?thesis using f t' by simp
qed

lemma create_milk:
  "create_task 1000 milk_id alice (empty_body\<lparr>b_title := Some ''Buy milk'', b_priority := Some 3\<rparr>) []
     = (Inr milk, [milk])"
proof -
  have t: "trim ''Buy milk'' = ''Buy milk''" by code_simp
  have e: "trim [] = []" by (simp add: trim_def)
  have c: "''personal'' \<in> set categories" by (simp add: categories_def)
  show ?thesis
    using t c e
    by (simp add: create_task_def empty_body_def priority_out_of_range_def save_new_def
        validate_task_def v_title_def v_description_def v_category_def v_priority_def
        v_dueDate_def v_tags_def pre_save_def milk_def Let_def)
qed

text \<open>
  C2 at the failing input. The task that \<^verbatim>\<open>POST {title: "Buy milk", priority: 3}\<close> stored
  satisfies the invariant; \<^verbatim>\<open>PUT {completed: true}\<close> on it succeeds and stores
  \<open>completed = True\<close> with \<open>completedAt\<close> still unset, because \<^verbatim>\<open>findOneAndUpdate\<close> does
  not run the \<^verbatim>\<open>pre('save')\<close> hook that maintains the pair.
\<close>

theorem C2_update_leaves_completedAt:
  "create_task 1000 milk_id alice (empty_body\<lparr>b_title := Some ''Buy milk'', b_priority := Some 3\<rparr>) []
     = (Inr milk, [milk])
   \<and> update_task 2000 alice milk_id (empty_body\<lparr>b_completed := Some True\<rparr>) [milk]
     = (Inr (milk\<lparr>completed := True, updatedAt := 2000\<rparr>), [milk\<lparr>completed := True, updatedAt := 2000\<rparr>])
   \<and> completed (milk\<lparr>completed := True, updatedAt := 2000\<rparr>)
   \<and> completedAt (milk\<lparr>completed := True, updatedAt := 2000\<rparr>) = None"
proof -
  have v: "valid_id milk_id" by (rule valid_milk_id)
  note 1 = create_milk
  have 2: "update_task 2000 alice milk_id (empty_body\<lparr>b_completed := Some True\<rparr>) [milk]
     = (Inr (milk\<lparr>completed := True, updatedAt := 2000\<rparr>), [milk\<lparr>completed := True, updatedAt := 2000\<rparr>])"
    using v
    by (simp add: update_task_def empty_body_def priority_out_of_range_def blank_title_def
        findOneAndUpdate_def validate_update_def update_fields_of_def v_dueDate_def
        owned_def apply_update_def milk_def)
  show ?thesis using 1 2 by (simp add: milk_def)
qed

subsection \<open>The route DELETE /api/tasks/completed\<close>

text \<open>
  C3 at the failing input. \<^verbatim>\<open>router.delete('/:id')\<close> is registered before
  \<^verbatim>\<open>router.delete('/completed')\<close>, so \<^verbatim>\<open>DELETE /api/tasks/completed\<close> is taken by the
  first with the identifier \<^verbatim>\<open>completed\<close>: for every caller and every collection the
  reply is 400 "invalid task id" and nothing is deleted.
\<close>

theorem C3_delete_completed_shadowed:
  "dispatch routes DELETE [''completed''] = Some (H_delete, ''completed'')
   \<and> tasks_router db now newId uid \<lparr> rq_verb = DELETE, rq_path = [''completed''], rq_query = q, rq_body = b \<rparr> store
       = (Inl (Failure 400 M_invalid_task_id), store)"
proof -
  have d: "dispatch routes DELETE [''completed''] = Some (H_delete, ''completed'')"
    by (simp add: routes_def)
  have v: "\<not> valid_id ''completed''" by (simp add: valid_id_def)
  show ?thesis using d v by (simp add: tasks_router_def run_handler_def delete_task_def)
qed

lemma delete_completed_exact:
  "delete_completed uid store = (n, store') \<Longrightarrow>
     n = length (filter (\<lambda>t. userId t = uid \<and> completed t) store)
     \<and> set store' = set store - {t. userId t = uid \<and> completed t}"
  by (auto simp: delete_completed_def)

subsection \<open>Create\<close>

text \<open>
  C9. When \<^verbatim>\<open>POST /api/tasks\<close> succeeds, the task it returns is the one appended to the
  collection; its owner is the authenticated caller, it is not completed and has no
  completion date; and putting any \<open>userId\<close>, \<open>completed\<close> or \<open>completedAt\<close> into the
  body changes nothing.
\<close>

theorem C9_create_owner_and_defaults:
  assumes "create_task now newId uid b store = (Inr t, store')"
  shows "userId t = uid \<and> completed t = False \<and> completedAt t = None
       \<and> store' = store @ [t]
       \<and> create_task now newId uid (b\<lparr>b_userId := x, b_completed := y, b_completedAt := z\<rparr>) store
           = (Inr t, store')"
proof -
  have same: "create_task now newId uid (b\<lparr>b_userId := x, b_completed := y, b_completedAt := z\<rparr>) store
              = create_task now newId uid b store"
    by (simp add: create_task_def Let_def split: option.splits)
  from assms have "userId t = uid \<and> completed t = False \<and> completedAt t = None \<and> store' = store @ [t]"
    by (auto simp: create_task_def save_new_def pre_save_def Let_def
             split: option.splits if_splits list.splits)
  with same assms show ?thesis by simp
qed

theorem C9_create_witness:
  "create_task 1000 milk_id alice (empty_body\<lparr>b_title := Some ''Buy milk'', b_priority := Some 3\<rparr>) []
     = (Inr milk, [milk])
   \<and> userId milk = alice \<and> completed milk = False \<and> completedAt milk = None
   \<and> create_task 1000 milk_id alice
        (empty_body\<lparr>b_title := Some ''Buy milk'', b_priority := Some 3,
                    b_userId := Some bob, b_completed := Some True, b_completedAt := Some 7\<rparr>) []
     = (Inr milk, [milk])"
proof -
  note 1 = create_milk
  from C9_create_owner_and_defaults [OF 1, where x = "Some bob" and y = "Some True" and z = "Some 7"] 1
  show ?thesis by simp
qed

subsection \<open>Update\<close>

lemma replace_first_all2:
  assumes "find P xs = Some t" and "R t y" and "\<And>x. R x x"
  shows "list_all2 R xs (replace_first P y xs)"
  using assms
proof (induction xs)
  case Nil
  then show ?case by simp
next
  case (Cons a xs)
  show ?case
  proof (cases "P a")
    case True
    with Cons.prems(1) have "a = t" by simp
    with True Cons.prems(2,3) show ?thesis by (simp add: list_all2_refl)
  next
    case False
    with Cons.prems(1) have "find P xs = Some t" by simp
    with Cons.IH Cons.prems(2,3) False show ?thesis by simp
  qed
qed

text \<open>
  C10, as the handler has it. Whatever the request, every stored task is after
  \<^verbatim>\<open>PUT /api/tasks/:id\<close> what it was before outside the fields \<open>title\<close>, \<open>description\<close>,
  \<open>category\<close>, \<open>priority\<close>, \<open>dueDate\<close>, \<open>completed\<close>, \<open>tags\<close> and \<open>updatedAt\<close>; in
  particular the owners and the creation dates of the collection are unchanged.
\<close>

theorem C10_update_frame:
  "list_all2 (\<lambda>t t'. t'\<lparr> title := title t, description := description t, category := category t,
                        priority := priority t, dueDate := dueDate t, completed := completed t,
                        tags := tags t, updatedAt := updatedAt t \<rparr> = t)
             store (snd (update_task now uid taskId b store))
   \<and> map userId (snd (update_task now uid taskId b store)) = map userId store
   \<and> map createdAt (snd (update_task now uid taskId b store)) = map createdAt store"
proof -
  let ?R = "\<lambda>t t'. t'\<lparr> title := title t, description := description t, category := category t,
                        priority := priority t, dueDate := dueDate t, completed := completed t,
                        tags := tags t, updatedAt := updatedAt t \<rparr> = t"
  let ?s = "snd (update_task now uid taskId b store)"
  have refl: "\<And>x. ?R x x" by simp
  have app: "\<And>u t. ?R t (apply_update now u t)" by (simp add: apply_update_def)
  have "?s = store \<or> (\<exists>t u. find (owned taskId uid) store = Some t
                            \<and> ?s = replace_first (owned taskId uid) (apply_update now u t) store)"
    by (auto simp: update_task_def findOneAndUpdate_def split: option.splits list.splits)
  then have all2: "list_all2 ?R store ?s"
  proof
    assume "?s = store"
    then show ?thesis by (simp add: list_all2_refl)
  next
    assume "\<exists>t u. find (owned taskId uid) store = Some t
                            \<and> ?s = replace_first (owned taskId uid) (apply_update now u t) store"
    then obtain t u where f: "find (owned taskId uid) store = Some t"
      and s: "?s = replace_first (owned taskId uid) (apply_update now u t) store" by blast
    have "list_all2 ?R store (replace_first (owned taskId uid) (apply_update now u t) store)"
      using f app refl by (rule replace_first_all2)
    with s show ?thesis by simp
  qed
  have fields: "?R t t' \<Longrightarrow> userId t' = userId t \<and> createdAt t' = createdAt t" for t t'
    by (cases t, cases t') simp
  from all2 fields have "list_all2 (\<lambda>t t'. userId t' = userId t \<and> createdAt t' = createdAt t) store ?s"
    by (rule list_all2_mono) 
  then have "map userId ?s = map userId store \<and> map createdAt ?s = map createdAt store"
    by (induction rule: list_all2_induct) auto
  with all2 show ?thesis by blast
qed

theorem C10_update_frame_witness:
  "map userId (snd (update_task 2000 alice milk_id (empty_body\<lparr>b_title := Some ''Buy bread''\<rparr>) [milk])) = [alice]
   \<and> map createdAt (snd (update_task 2000 alice milk_id (empty_body\<lparr>b_title := Some ''Buy bread''\<rparr>) [milk])) = [1000]"
  using C10_update_frame [where store = "[milk]" and now = 2000 and uid = alice and taskId = milk_id
                          and b = "empty_body\<lparr>b_title := Some ''Buy bread''\<rparr>"]
  by (simp add: milk_def)

text \<open>
  C10 as stated fails: an update of the title alone also moves \<open>updatedAt\<close>, from 1000 to
  2000 here.
\<close>

theorem C10_counterexample:
  "snd (update_task 2000 alice milk_id (empty_body\<lparr>b_title := Some ''Buy bread''\<rparr>) [milk])
     = [milk\<lparr>title := ''Buy bread'', updatedAt := 2000\<rparr>]
   \<and> updatedAt milk = 1000
   \<and> updatedAt (milk\<lparr>title := ''Buy bread'', updatedAt := 2000\<rparr>) \<noteq> updatedAt milk"
proof -
  have t: "trim ''Buy bread'' = ''Buy bread''" by code_simp
  have v: "valid_id milk_id" by (rule valid_milk_id)
  show ?thesis using t v
    by (simp add: update_task_def empty_body_def priority_out_of_range_def blank_title_def
        findOneAndUpdate_def validate_update_def update_fields_of_def v_dueDate_def v_title_def
        owned_def apply_update_def milk_def)
qed

subsection \<open>Tokens\<close>

text \<open>
  C4. For every signing function and secret: a token issued for \<open>u\<close> at \<open>now\<close> is
  accepted by the middleware at any time \<open>now'\<close> before its expiry and yields \<open>u\<close>'s id
  and e-mail, and from the expiry on it is refused with ExpiredToken (401); text that is
  not a token, and a token whose signature is not the one the secret gives, are refused
  with InvalidToken (401); a correctly signed token whose expiry is not in the future is
  refused with ExpiredToken (401).
\<close>

theorem C4_token_roundtrip:
  "(seconds now' < seconds now + 604800 \<longrightarrow>
      authenticateToken mac env now' (Some (Bearer (generateToken mac env now u)))
        = Inr \<lparr> auth_id = user_id u, auth_email = email u \<rparr>)
   \<and> (seconds now + 604800 \<le> seconds now' \<longrightarrow>
      authenticateToken mac env now' (Some (Bearer (generateToken mac env now u))) = Inl ExpiredToken)
   \<and> authenticateToken mac env now' (Some (Bearer (Malformed raw))) = Inl InvalidToken
   \<and> (sig \<noteq> mac (JWT_SECRET env) c \<longrightarrow>
      authenticateToken mac env now' (Some (Bearer (Signed c sig))) = Inl InvalidToken)
   \<and> (c_exp c \<le> seconds now' \<longrightarrow>
      authenticateToken mac env now' (Some (Bearer (Signed c (mac (JWT_SECRET env) c)))) = Inl ExpiredToken)"
  by (simp add: authenticateToken_def generateToken_def jwt_sign_def jwt_verify_def Let_def)

theorem C4_token_witness:
  "seconds 5000 < seconds 1000 + 604800
   \<and> authenticateToken toy_mac None 5000 (Some (Bearer (generateToken toy_mac None 1000 ann)))
        = Inr \<lparr> auth_id = alice, auth_email = ''a@x.com'' \<rparr>
   \<and> seconds 1000 + 604800 \<le> seconds 604801000
   \<and> authenticateToken toy_mac None 604801000 (Some (Bearer (generateToken toy_mac None 1000 ann)))
        = Inl ExpiredToken
   \<and> authenticateToken toy_mac None 5000 (Some (Bearer (Malformed ''abc''))) = Inl InvalidToken
   \<and> ''forged'' \<noteq> toy_mac (JWT_SECRET None) \<lparr> c_id = alice, c_email = ''a@x.com'', c_iat = 1, c_exp = 604801 \<rparr>
   \<and> authenticateToken toy_mac None 5000
        (Some (Bearer (Signed \<lparr> c_id = alice, c_email = ''a@x.com'', c_iat = 1, c_exp = 604801 \<rparr> ''forged'')))
        = Inl InvalidToken
   \<and> c_exp \<lparr> c_id = alice, c_email = ''a@x.com'', c_iat = 1, c_exp = 3 \<rparr> \<le> seconds 5000
   \<and> authenticateToken toy_mac None 5000
        (Some (Bearer (Signed \<lparr> c_id = alice, c_email = ''a@x.com'', c_iat = 1, c_exp = 3 \<rparr>
                              (toy_mac (JWT_SECRET None) \<lparr> c_id = alice, c_email = ''a@x.com'', c_iat = 1, c_exp = 3 \<rparr>))))
        = Inl ExpiredToken"
proof -
  have a: "seconds 5000 < seconds 1000 + 604800" by (simp add: seconds_def)
  have b: "seconds 1000 + 604800 \<le> seconds 604801000" by (simp add: seconds_def)
  have c: "''forged'' \<noteq> toy_mac (JWT_SECRET None) \<lparr> c_id = alice, c_email = ''a@x.com'', c_iat = 1, c_exp = 604801 \<rparr>"
    by (simp add: toy_mac_def JWT_SECRET_def)
  have d: "c_exp \<lparr> c_id = alice, c_email = ''a@x.com'', c_iat = 1, c_exp = 3 \<rparr> \<le> seconds 5000"
    by (simp add: seconds_def)
  have e: "user_id ann = alice" "email ann = ''a@x.com''" by (simp_all add: ann_def)
  from C4_token_roundtrip [where now' = 5000 and now = 1000 and mac = toy_mac and env = None and u = ann]
  have 1: "authenticateToken toy_mac None 5000 (Some (Bearer (generateToken toy_mac None 1000 ann)))
        = Inr \<lparr> auth_id = alice, auth_email = ''a@x.com'' \<rparr>"
    using a e by simp
  from C4_token_roundtrip [where now' = 604801000 and now = 1000 and mac = toy_mac and env = None and u = ann]
  have 2: "authenticateToken toy_mac None 604801000 (Some (Bearer (generateToken toy_mac None 1000 ann)))
        = Inl ExpiredToken"
    using b by simp
  from C4_token_roundtrip [where now' = 5000 and mac = toy_mac and env = None and raw = "''abc''"]
  have 3: "authenticateToken toy_mac None 5000 (Some (Bearer (Malformed ''abc''))) = Inl InvalidToken"
    by simp
  from C4_token_roundtrip [where now' = 5000 and mac = toy_mac and env = None and sig = "''forged''"
       and c = "\<lparr> c_id = alice, c_email = ''a@x.com'', c_iat = 1, c_exp = 604801 \<rparr>"]
  have 4: "authenticateToken toy_mac None 5000
        (Some (Bearer (Signed \<lparr> c_id = alice, c_email = ''a@x.com'', c_iat = 1, c_exp = 604801 \<rparr> ''forged'')))
        = Inl InvalidToken"
    using c by simp
  from C4_token_roundtrip [where now' = 5000 and mac = toy_mac and env = None
       and c = "\<lparr> c_id = alice, c_email = ''a@x.com'', c_iat = 1, c_exp = 3 \<rparr>"]
  have 5: "authenticateToken toy_mac None 5000
        (Some (Bearer (Signed \<lparr> c_id = alice, c_email = ''a@x.com'', c_iat = 1, c_exp = 3 \<rparr>
                              (toy_mac (JWT_SECRET None) \<lparr> c_id = alice, c_email = ''a@x.com'', c_iat = 1, c_exp = 3 \<rparr>))))
        = Inl ExpiredToken"
    using d by simp
  from a b c d 1 2 3 4 5 show ?thesis by blast
qed

subsection \<open>Login\<close>

text \<open>
  C5, as the handler has it. For a login request that carries an e-mail and a password:
  if no user matches the e-mail, login fails with InvalidCredentials (401); if the
  matched user is deactivated, login fails with AccountDeactivated (401), whatever the
  password; if the matched user is active and the password does not match the stored
  hash, login fails with InvalidCredentials (401), with the message of the first case. No
  failure changes the collection.
\<close>

theorem C5_login_failures:
  assumes "\<not> falsy (l_email b)" and "\<not> falsy (l_password b)"
  shows "(findOne_email (trim (toLowerCase (text_of (l_email b)))) users = None \<longrightarrow>
            login mac compare env now b users = (Inl InvalidCredentials, users))
       \<and> (\<forall>u. findOne_email (trim (toLowerCase (text_of (l_email b)))) users = Some u \<and> \<not> isActive u \<longrightarrow>
            login mac compare env now b users = (Inl AccountDeactivated, users))
       \<and> (\<forall>u. findOne_email (trim (toLowerCase (text_of (l_email b)))) users = Some u \<and> isActive u
              \<and> \<not> compare (text_of (l_password b)) (password u) \<longrightarrow>
            login mac compare env now b users = (Inl InvalidCredentials, users))"
  using assms by (simp add: login_def)

lemma find_nobody: "findOne_email (trim (toLowerCase ''nobody@x.com'')) [ann, dan] = None"
  by code_simp

lemma find_ann: "findOne_email (trim (toLowerCase ''A@x.com'')) [ann, dan] = Some ann"
  by code_simp

lemma find_dan: "findOne_email (trim (toLowerCase ''d@x.com'')) [ann, dan] = Some dan"
  by code_simp

theorem C5_login_witness:
  "login toy_mac toy_compare None 2000 \<lparr> l_email = Some ''nobody@x.com'', l_password = Some ''secret1'' \<rparr> [ann, dan]
     = (Inl InvalidCredentials, [ann, dan])
   \<and> login toy_mac toy_compare None 2000 \<lparr> l_email = Some ''d@x.com'', l_password = Some ''secret2'' \<rparr> [ann, dan]
     = (Inl AccountDeactivated, [ann, dan])
   \<and> login toy_mac toy_compare None 2000 \<lparr> l_email = Some ''A@x.com'', l_password = Some ''wrong'' \<rparr> [ann, dan]
     = (Inl InvalidCredentials, [ann, dan])"
proof -
  have f: "\<not> falsy (Some ''nobody@x.com'')" "\<not> falsy (Some ''d@x.com'')" "\<not> falsy (Some ''A@x.com'')"
          "\<not> falsy (Some ''secret1'')" "\<not> falsy (Some ''secret2'')" "\<not> falsy (Some ''wrong'')"
    by (simp_all add: falsy_def)
  have i: "\<not> isActive dan" "isActive ann" by (simp_all add: dan_def ann_def)
  have w: "\<not> toy_compare ''wrong'' (password ann)" by (simp add: toy_compare_def ann_def)
  from C5_login_failures [where b = "\<lparr> l_email = Some ''nobody@x.com'', l_password = Some ''secret1'' \<rparr>"
        and users = "[ann, dan]" and mac = toy_mac and compare = toy_compare and env = None and now = 2000]
  have 1: "login toy_mac toy_compare None 2000 \<lparr> l_email = Some ''nobody@x.com'', l_password = Some ''secret1'' \<rparr> [ann, dan]
     = (Inl InvalidCredentials, [ann, dan])"
    using f find_nobody by (simp add: text_of_def)
  from C5_login_failures [where b = "\<lparr> l_email = Some ''d@x.com'', l_password = Some ''secret2'' \<rparr>"
        and users = "[ann, dan]" and mac = toy_mac and compare = toy_compare and env = None and now = 2000]
  have 2: "login toy_mac toy_compare None 2000 \<lparr> l_email = Some ''d@x.com'', l_password = Some ''secret2'' \<rparr> [ann, dan]
     = (Inl AccountDeactivated, [ann, dan])"
    using f find_dan i by (simp add: text_of_def)
  from C5_login_failures [where b = "\<lparr> l_email = Some ''A@x.com'', l_password = Some ''wrong'' \<rparr>"
        and users = "[ann, dan]" and mac = toy_mac and compare = toy_compare and env = None and now = 2000]
  have 3: "login toy_mac toy_compare None 2000 \<lparr> l_email = Some ''A@x.com'', l_password = Some ''wrong'' \<rparr> [ann, dan]
     = (Inl InvalidCredentials, [ann, dan])"
    using f find_ann i w by (simp add: text_of_def)
  from 1 2 3 show ?thesis by blast
qed

text \<open>
  C5 as stated fails: dan's account is deactivated, the password sent does not match his
  stored hash, and the reply is AccountDeactivated, not the InvalidCredentials message.
\<close>

theorem C5_counterexample:
  "findOne_email (trim (toLowerCase ''d@x.com'')) [ann, dan] = Some dan
   \<and> \<not> toy_compare ''wrong'' (password dan)
   \<and> login toy_mac toy_compare None 2000 \<lparr> l_email = Some ''d@x.com'', l_password = Some ''wrong'' \<rparr> [ann, dan]
       = (Inl AccountDeactivated, [ann, dan])
   \<and> AccountDeactivated \<noteq> InvalidCredentials"
proof -
  have w: "\<not> toy_compare ''wrong'' (password dan)" by (simp add: toy_compare_def dan_def)
  have i: "\<not> isActive dan" by (simp add: dan_def)
  show ?thesis using find_dan w i by (simp add: login_def falsy_def text_of_def)
qed

subsection \<open>Registration\<close>

lemma void_not_nullable: "void r \<Longrightarrow> \<not> nullable r"
  by (induction r) auto

lemma void_deriv: "void r \<Longrightarrow> void (deriv c r)"
  by (induction r) (auto simp: void_not_nullable)

lemma void_no_match: "void r \<Longrightarrow> \<not> rx_test r s"
proof (induction s arbitrary: r)
  case Nil
  then show ?case by (simp add: rx_test_def void_not_nullable)
next
  case (Cons c s)
  from Cons.prems have "void (deriv c r)" by (rule void_deriv)
  then have "\<not> rx_test (deriv c r) s" by (rule Cons.IH)
  then show ?case by (simp add: rx_test_def)
qed

lemma foreign_char_deriv: "\<not> alphabet r c \<Longrightarrow> void (deriv c r)"
  by (induction r) auto

lemma alphabet_deriv: "alphabet (deriv c r) d \<Longrightarrow> alphabet r d"
  by (induction r) (auto split: if_splits)

lemma rx_test_alphabet: "rx_test r s \<Longrightarrow> \<forall>c\<in>set s. alphabet r c"
proof (induction s arbitrary: r)
  case Nil
  then show ?case by simp
next
  case (Cons c s)
  from Cons.prems have t: "rx_test (deriv c r) s" by (simp add: rx_test_def)
  have "alphabet r c"
  proof (rule ccontr)
    assume "\<not> alphabet r c"
    then have "void (deriv c r)" by (rule foreign_char_deriv)
    then have "\<not> rx_test (deriv c r) s" by (rule void_no_match)
    with t show False by simp
  qed
  moreover from Cons.IH [OF t] have "\<forall>d\<in>set s. alphabet r d"
    using alphabet_deriv by blast
  ultimately show ?case by simp
qed

lemma email_chars:
  assumes "rx_test emailRegex e" and "c \<in> set e"
  shows "is_word c \<or> c = CHR ''.'' \<or> c = CHR ''-'' \<or> c = CHR ''@''"
proof -
  from rx_test_alphabet [OF assms(1)] assms(2) have "alphabet emailRegex c" by blast
  then show ?thesis
    by (auto simp: emailRegex_def rx_words_def rx_tld_def rx_plus_def rx_opt_def)
qed

lemma email_char_not_space:
  "is_word c \<or> c = CHR ''.'' \<or> c = CHR ''-'' \<or> c = CHR ''@'' \<Longrightarrow> \<not> is_space c"
  by (auto simp: is_word_def is_digit_def is_upper_def is_lower_def is_space_def code_def)

lemma trim_no_space:
  assumes "\<forall>c\<in>set s. \<not> is_space c"
  shows "trim s = s"
proof -
  have a: "dropWhile is_space s = s" using assms by (cases s) auto
  have "\<forall>c\<in>set (rev s). \<not> is_space c" using assms by simp
  then have b: "dropWhile is_space (rev s) = rev s" by (cases "rev s") auto
  show ?thesis by (simp add: trim_def a b)
qed

lemma email_needs_no_trim: "rx_test emailRegex e \<Longrightarrow> trim e = e"
  using email_chars email_char_not_space by (blast intro: trim_no_space)

lemma emailRegex_nonempty: "\<not> rx_test emailRegex []"
  by (simp add: rx_test_def emailRegex_def rx_words_def rx_plus_def)

text \<open>
  C6, as the handler has it. If the e-mail of a registration request equals, after
  trimming and lower-casing, the e-mail of a stored user, then registration fails and
  stores nothing; it fails with DuplicateEmail (409) when the request passes the checks
  that come first: name, e-mail and password present, the e-mail as sent matching the
  pattern, the password six characters or longer. An e-mail that trimming changes does
  not match the pattern, so such a request is answered with 400.
\<close>

theorem C6_duplicate_email:
  assumes "r_email b = Some e" and "u \<in> set users" and "email u = trim (toLowerCase e)"
  shows "snd (register_user mac hash env now newId salt b users) = users
       \<and> (\<exists>f. fst (register_user mac hash env now newId salt b users) = Inl f)
       \<and> (\<not> falsy (r_name b) \<and> \<not> falsy (r_password b) \<and> rx_test emailRegex e
            \<and> 6 \<le> length (text_of (r_password b)) \<longrightarrow>
          fst (register_user mac hash env now newId salt b users) = Inl DuplicateEmail)
       \<and> (trim e \<noteq> e \<longrightarrow> status (fst (register_user mac hash env now newId salt b users)) = 400)"
proof -
  from assms(2,3) have "\<exists>x\<in>set users. email x = cast_email e"
    by (auto simp: cast_email_def)
  then have "find (\<lambda>u. email u = cast_email e) users \<noteq> None"
    by (auto simp: find_None_iff)
  then obtain v where v: "findOne_email e users = Some v"
    by (auto simp: findOne_email_def)
  have e: "text_of (r_email b) = e" using assms(1) by (simp add: text_of_def)
  have ne: "rx_test emailRegex e \<Longrightarrow> \<not> falsy (r_email b)"
    using assms(1) emailRegex_nonempty by (auto simp: falsy_def)
  have tr: "trim e \<noteq> e \<Longrightarrow> \<not> rx_test emailRegex e"
    using email_needs_no_trim by blast
  show ?thesis using v e ne tr by (auto simp: register_user_def)
qed

lemma trim_upper_ann: "trim (toLowerCase ''A@X.COM'') = ''a@x.com''"
  by code_simp

lemma trim_spaced_ann: "trim (toLowerCase '' a@x.com'') = ''a@x.com''"
  by code_simp

lemma regex_upper_ann: "rx_test emailRegex ''A@X.COM''"
  by code_simp

lemma regex_spaced_ann: "\<not> rx_test emailRegex '' a@x.com''"
  by code_simp

theorem C6_duplicate_witness:
  "register_user toy_mac toy_hash None 2000 bob ''salt''
      \<lparr> r_name = Some ''Bob'', r_email = Some ''A@X.COM'', r_password = Some ''secret1'' \<rparr> [ann]
     = (Inl DuplicateEmail, [ann])"
proof -
  have a: "ann \<in> set [ann]" by simp
  have b: "email ann = trim (toLowerCase ''A@X.COM'')" using trim_upper_ann by (simp add: ann_def)
  have c: "r_email \<lparr> r_name = Some ''Bob'', r_email = Some ''A@X.COM'', r_password = Some ''secret1'' \<rparr> = Some ''A@X.COM''"
    by simp
  from C6_duplicate_email [OF c a b, where mac = toy_mac and hash = toy_hash and env = None
                           and now = 2000 and newId = bob and salt = "''salt''"]
  show ?thesis using regex_upper_ann by (simp add: falsy_def text_of_def prod_eq_iff)
qed

text \<open>
  C6 as stated fails: the e-mail \<^verbatim>\<open>' a@x.com'\<close> equals ann's after trimming, all three
  fields are present and the password is long enough, and the reply is 400 "invalid
  e-mail", not DuplicateEmail.
\<close>

theorem C6_counterexample:
  "email ann = trim (toLowerCase '' a@x.com'')
   \<and> register_user toy_mac toy_hash None 2000 bob ''salt''
        \<lparr> r_name = Some ''Bob'', r_email = Some '' a@x.com'', r_password = Some ''secret1'' \<rparr> [ann]
       = (Inl (Failure 400 M_invalid_email), [ann])
   \<and> Failure 400 M_invalid_email \<noteq> DuplicateEmail"
  using trim_spaced_ann regex_spaced_ann
  by (simp add: ann_def register_user_def falsy_def text_of_def)

subsection \<open>Decimal text and parseInt\<close>

lemma is_digit_char_of: "d < 10 \<Longrightarrow> is_digit (char_of (48 + d :: nat))"
  by (simp add: is_digit_def code_def)

lemma digit_val_char_of: "d < 10 \<Longrightarrow> digit_val 10 (char_of (48 + d :: nat)) = d"
  by (simp add: digit_val_def digit_of_def is_digit_def code_def)

lemma is_digit_not_space: "is_digit c \<Longrightarrow> \<not> is_space c"
  by (auto simp: is_digit_def is_space_def code_def)

lemma is_digit_not_sign:
  "is_digit c \<Longrightarrow> c \<noteq> CHR ''-'' \<and> c \<noteq> CHR ''+'' \<and> c \<noteq> CHR ''x'' \<and> c \<noteq> CHR ''X''"
  by (auto simp: is_digit_def code_def)

lemma is_digit_digit_of: "is_digit c \<Longrightarrow> digit_of 10 c \<noteq> None"
  by (auto simp: digit_of_def is_digit_def)

lemma decimal_digits: "\<forall>c\<in>set (decimal n). is_digit c"
proof (induction n rule: decimal.induct)
  case (1 n)
  show ?case
  proof (cases "n < 10")
    case True
    then show ?thesis by (subst decimal.simps) (simp add: is_digit_char_of)
  next
    case False
    have "n mod 10 < 10" by simp
    then have "is_digit (char_of (48 + n mod 10))" by (rule is_digit_char_of)
    with 1 False show ?thesis by (subst decimal.simps) auto
  qed
qed

lemma decimal_nonempty: "decimal n \<noteq> []"
  by (subst decimal.simps) simp

lemma decimal_value: "foldl (\<lambda>a c. a * 10 + digit_val 10 c) 0 (decimal n) = n"
proof (induction n rule: decimal.induct)
  case (1 n)
  show ?case
  proof (cases "n < 10")
    case True
    then show ?thesis
      by (subst decimal.simps) (simp add: digit_val_char_of)
  next
    case False
    have m: "n mod 10 < 10" by simp
    from False 1 have ih: "foldl (\<lambda>a c. a * 10 + digit_val 10 c) 0 (decimal (n div 10)) = n div 10"
      by simp
    show ?thesis
      using False ih digit_val_char_of [OF m] by (subst decimal.simps) simp
  qed
qed

lemma parseInt_decimal: "parseInt (decimal n) = Some (int n)"
proof -
  obtain c cs where cs: "decimal n = c # cs"
    using decimal_nonempty by (cases "decimal n") auto
  have all: "\<forall>c\<in>set (decimal n). is_digit c" by (rule decimal_digits)
  then have d: "is_digit c" using cs by simp
  have sp: "dropWhile is_space (decimal n) = decimal n"
    using cs d is_digit_not_space by simp
  have sg: "strip_sign (decimal n) = (False, decimal n)"
    using cs d is_digit_not_sign by (simp add: strip_sign_def)
  have rd: "strip_radix (decimal n) = (10, decimal n)"
  proof (cases cs)
    case Nil
    with cs show ?thesis by (simp add: strip_radix_def)
  next
    case (Cons b r)
    with all cs have "is_digit b" by simp
    then have "b \<noteq> CHR ''x''" "b \<noteq> CHR ''X''" using is_digit_not_sign by auto
    with cs Cons show ?thesis by (simp add: strip_radix_def)
  qed
  have tw: "takeWhile (\<lambda>c. digit_of 10 c \<noteq> None) (decimal n) = decimal n"
    using all is_digit_digit_of by (auto simp del: not_None_eq)
  show ?thesis
    by (simp only: parseInt_def sp sg rd prod.case Let_def tw decimal_value)
       (simp add: decimal_nonempty)
qed

subsection \<open>Pagination\<close>

lemma mset_insert_by: "mset (insert_by le x xs) = add_mset x (mset xs)"
  by (induction xs) auto

lemma mset_sort_by: "mset (sort_by le xs) = mset xs"
  by (induction xs) (auto simp: sort_by_def mset_insert_by)

lemma find_sorted_mset:
  "find_sorted db fq opts store = Some found \<Longrightarrow> mset found = mset (filter (matches fq) store)"
  by (auto simp: find_sorted_def mset_sort_by split: if_splits)

lemma find_sorted_length:
  "find_sorted db fq opts store = Some found \<Longrightarrow> length found = length (filter (matches fq) store)"
  using find_sorted_mset [of db fq opts store found] by (metis size_mset)

lemma concat_pages:
  "concat (map (\<lambda>i. take L (drop (i * L) xs)) [0..<k]) = take (k * L) xs"
proof (induction k)
  case 0
  then show ?case by simp
next
  case (Suc k)
  have "take (k * L + L) xs = take (k * L) xs @ take L (drop (k * L) xs)"
    by (rule take_add)
  with Suc show ?case by (simp add: add.commute)
qed

lemma ceil_div_pos:
  "1 \<le> L \<Longrightarrow> ceil_div n (Some L) = Some \<lceil>real n / real_of_int L\<rceil>"
proof -
  assume "1 \<le> L"
  have "\<lceil>real n / real_of_int L\<rceil> = \<lceil>of_int (int n) / (of_int L :: real)\<rceil>" by simp
  also have "\<dots> = - (- int n div L)" by (rule ceiling_divide_eq_div)
  finally show ?thesis using \<open>1 \<le> L\<close> by (simp add: ceil_div_def)
qed

lemma pages_cover:
  assumes "1 \<le> L"
  shows "n \<le> nat \<lceil>real n / real_of_int L\<rceil> * nat L"
proof -
  have L: "0 < real_of_int L" using assms by simp
  have "real n \<le> of_int \<lceil>real n / real_of_int L\<rceil> * real_of_int L"
    using L by (simp add: pos_divide_le_eq [symmetric])
  then have le: "int n \<le> \<lceil>real n / real_of_int L\<rceil> * L"
    by (metis of_int_le_iff of_int_mult of_int_of_nat_eq)
  have "0 \<le> real n / real_of_int L" using L by simp
  then have "0 \<le> \<lceil>real n / real_of_int L\<rceil>"
    using ceiling_mono [of 0 "real n / real_of_int L"] by simp
  with le have "int n \<le> int (nat \<lceil>real n / real_of_int L\<rceil> * nat L)"
    using assms by simp
  then show ?thesis by linarith
qed

lemma list_tasks_page:
  assumes p: "parse_param (q_page q) 1 = Some p" "1 \<le> p"
      and l: "parse_param (q_limit q) 10 = Some L" "1 \<le> L"
      and f: "find_sorted db (build_query uid q) (sort_options_of q) store = Some found"
  shows "list_tasks db uid q store =
           Inr (take (nat L) (drop (nat ((p - 1) * L)) found),
                \<lparr> currentPage = Some p,
                  totalPages = Some \<lceil>real (length (filter (matches (build_query uid q)) store)) / real_of_int L\<rceil>,
                  totalItems = length (filter (matches (build_query uid q)) store),
                  itemsPerPage = Some L \<rparr>)"
proof -
  have s: "js_mul (js_pred (Some p)) (Some L) = Some ((p - 1) * L)"
    by (simp add: js_mul_def js_pred_def)
  have "0 \<le> (p - 1) * L" using p(2) l(2) by simp
  then have w: "skip_limit db (Some ((p - 1) * L)) (Some L) found
                  = Some (take (nat L) (drop (nat ((p - 1) * L)) found))"
    using l(2) by (simp add: skip_limit_def window_def)
  show ?thesis
    using p(1) l(1) f s w ceil_div_pos [OF l(2)] by (simp add: list_tasks_def Let_def)
qed

lemma query_ignores_page:
  "build_query uid (q\<lparr>q_page := x\<rparr>) = build_query uid q"
  "sort_options_of (q\<lparr>q_page := x\<rparr>) = sort_options_of q"
  by (simp_all add: build_query_def sort_options_of_def)

text \<open>
  C7. Let the store accept the query of a list request, \<open>found\<close> being what
  \<^verbatim>\<open>find(query).sort(sortOptions)\<close> returns without pagination, and let the page size be a
  number \<open>L \<ge> 1\<close> (the default 10 when no limit is sent). Then \<open>found\<close> holds exactly the
  \<open>N\<close> stored tasks that match the filter; for every page number \<open>p \<ge> 1\<close> the reply is
  200 with \<open>L\<close> tasks of \<open>found\<close> from position \<open>(p - 1) * L\<close> on, \<open>totalPages =
  ceil(N / L)\<close> and \<open>totalItems = N\<close>; and the task arrays of the pages \<open>1\<close> to
  \<open>totalPages\<close>, one after the other, are \<open>found\<close>.
\<close>

theorem C7_pagination:
  assumes l: "parse_param (q_limit q) 10 = Some L" "1 \<le> L"
      and f: "find_sorted db (build_query uid q) (sort_options_of q) store = Some found"
  shows "mset found = mset (filter (matches (build_query uid q)) store)
       \<and> (\<forall>p ps. 1 \<le> p \<and> parseInt ps = Some p \<longrightarrow>
            list_tasks db uid (q\<lparr>q_page := Some ps\<rparr>) store =
              Inr (take (nat L) (drop (nat ((p - 1) * L)) found),
                   \<lparr> currentPage = Some p,
                     totalPages = Some \<lceil>real (length (filter (matches (build_query uid q)) store)) / real_of_int L\<rceil>,
                     totalItems = length (filter (matches (build_query uid q)) store),
                     itemsPerPage = Some L \<rparr>))
       \<and> concat (map (\<lambda>p. tasks_of (list_tasks db uid (q\<lparr>q_page := Some (decimal p)\<rparr>) store))
                     [1..<Suc (nat \<lceil>real (length (filter (matches (build_query uid q)) store)) / real_of_int L\<rceil>)])
           = found"
proof -
  let ?N = "length (filter (matches (build_query uid q)) store)"
  let ?tp = "nat \<lceil>real ?N / real_of_int L\<rceil>"
  have m: "mset found = mset (filter (matches (build_query uid q)) store)"
    using f by (rule find_sorted_mset)
  have len: "length found = ?N" using f by (rule find_sorted_length)
  have page: "list_tasks db uid (q\<lparr>q_page := Some ps\<rparr>) store =
              Inr (take (nat L) (drop (nat ((p - 1) * L)) found),
                   \<lparr> currentPage = Some p, totalPages = Some \<lceil>real ?N / real_of_int L\<rceil>,
                     totalItems = ?N, itemsPerPage = Some L \<rparr>)"
    if "1 \<le> p" "parseInt ps = Some p" for p ps
  proof -
    have 1: "parse_param (q_page (q\<lparr>q_page := Some ps\<rparr>)) 1 = Some p"
      using that(2) by (simp add: parse_param_def)
    have 2: "parse_param (q_limit (q\<lparr>q_page := Some ps\<rparr>)) 10 = Some L" using l(1) by simp
    have 3: "find_sorted db (build_query uid (q\<lparr>q_page := Some ps\<rparr>)) (sort_options_of (q\<lparr>q_page := Some ps\<rparr>)) store = Some found"
      using f by (simp add: query_ignores_page)
    from list_tasks_page [OF 1 that(1) 2 l(2) 3] show ?thesis by (simp add: query_ignores_page)
  qed
  have each: "tasks_of (list_tasks db uid (q\<lparr>q_page := Some (decimal (Suc i))\<rparr>) store)
                = take (nat L) (drop (i * nat L) found)" for i
  proof -
    have "nat ((int (Suc i) - 1) * L) = i * nat L"
      using l(2) by (simp add: nat_mult_distrib)
    with page [of "int (Suc i)" "decimal (Suc i)"] show ?thesis
      by (simp add: parseInt_decimal tasks_of_def)
  qed
  have "[1..<Suc ?tp] = map Suc [0..<?tp]"
    by (simp add: map_Suc_upt)
  then have "concat (map (\<lambda>p. tasks_of (list_tasks db uid (q\<lparr>q_page := Some (decimal p)\<rparr>) store)) [1..<Suc ?tp])
           = concat (map (\<lambda>i. take (nat L) (drop (i * nat L) found)) [0..<?tp])"
    by (simp add: each comp_def)
  also have "\<dots> = take (?tp * nat L) found" by (rule concat_pages)
  also have "\<dots> = found" using pages_cover [OF l(2), of ?N] len by simp
  finally have c: "concat (map (\<lambda>p. tasks_of (list_tasks db uid (q\<lparr>q_page := Some (decimal p)\<rparr>) store)) [1..<Suc ?tp]) = found" .
  from m page c show ?thesis by blast
qed

lemma parse_1: "parseInt ''1'' = Some 1" by code_simp
lemma parse_2: "parseInt ''2'' = Some 2" by code_simp
lemma parse_10: "parseInt ''10'' = Some 10" by code_simp
lemma parse_abc: "parseInt ''abc'' = None" by code_simp

lemma three_sorted:
  "find_sorted strict_db (build_query alice two_per_page) (sort_options_of two_per_page) three_tasks
    = Some [nth_task 3, nth_task 2, nth_task 1]"
  by (simp add: two_per_page_def three_tasks_def empty_query_def build_query_def sort_options_of_def
      sort_options_def find_sorted_def strict_db_def matches_def milk_def nth_task_def by_date_def
      alice_def bob_def sort_by_def Let_def)

lemma three_match:
  "length (filter (matches (build_query alice two_per_page)) three_tasks) = 3"
  by (simp add: two_per_page_def three_tasks_def empty_query_def build_query_def
      matches_def milk_def nth_task_def)

theorem C7_pagination_witness:
  "parse_param (q_limit two_per_page) 10 = Some 2
   \<and> find_sorted strict_db (build_query alice two_per_page) (sort_options_of two_per_page) three_tasks
       = Some [nth_task 3, nth_task 2, nth_task 1]
   \<and> list_tasks strict_db alice (two_per_page\<lparr>q_page := Some ''2''\<rparr>) three_tasks
       = Inr ([nth_task 1], \<lparr> currentPage = Some 2, totalPages = Some 2, totalItems = 3, itemsPerPage = Some 2 \<rparr>)
   \<and> concat (map (\<lambda>p. tasks_of (list_tasks strict_db alice (two_per_page\<lparr>q_page := Some (decimal p)\<rparr>) three_tasks))
                 [1..<3])
       = [nth_task 3, nth_task 2, nth_task 1]"
proof -
  have l: "parse_param (q_limit two_per_page) 10 = Some 2"
    using parse_2 by (simp add: two_per_page_def parse_param_def)
  have one: "(1::int) \<le> 2" by simp
  note f = three_sorted
  have c: "\<lceil>real (3::nat) / real_of_int 2\<rceil> = 2" by simp
  note inst = C7_pagination [OF l one f, unfolded three_match c]
  from inst have pages: "\<forall>p ps. 1 \<le> p \<and> parseInt ps = Some p \<longrightarrow>
            list_tasks strict_db alice (two_per_page\<lparr>q_page := Some ps\<rparr>) three_tasks =
              Inr (take (nat 2) (drop (nat ((p - 1) * 2)) [nth_task 3, nth_task 2, nth_task 1]),
                   \<lparr> currentPage = Some p, totalPages = Some 2, totalItems = 3, itemsPerPage = Some 2 \<rparr>)"
    by blast
  from pages [rule_format, of 2 "''2''"] parse_2 have p2: "list_tasks strict_db alice (two_per_page\<lparr>q_page := Some ''2''\<rparr>) three_tasks
       = Inr ([nth_task 1], \<lparr> currentPage = Some 2, totalPages = Some 2, totalItems = 3, itemsPerPage = Some 2 \<rparr>)"
    by simp
  from inst have cc: "concat (map (\<lambda>p. tasks_of (list_tasks strict_db alice (two_per_page\<lparr>q_page := Some (decimal p)\<rparr>) three_tasks))
                 [1..<Suc (nat 2)]) = [nth_task 3, nth_task 2, nth_task 1]"
    by blast
  have "Suc (nat 2) = 3" by simp
  with cc have cc': "concat (map (\<lambda>p. tasks_of (list_tasks strict_db alice (two_per_page\<lparr>q_page := Some (decimal p)\<rparr>) three_tasks))
                 [1..<3]) = [nth_task 3, nth_task 2, nth_task 1]"
    by (simp only:)
  from l f p2 cc' show ?thesis by blast
qed

subsection \<open>Page and limit parameters that are absent or malformed\<close>

lemma malformed_page_reply:
  assumes "parseInt ps = None" and "list_tasks db uid (q\<lparr>q_page := Some ps\<rparr>) store = Inr (ts, pg)"
  shows "currentPage pg = None"
  using assms
  by (auto simp: list_tasks_def Let_def parse_param_def split: option.splits)

lemma malformed_limit_reply:
  assumes "parseInt ls = None" and "list_tasks db uid (q\<lparr>q_limit := Some ls\<rparr>) store = Inr (ts, pg)"
  shows "itemsPerPage pg = None \<and> totalPages pg = None"
  using assms
  by (auto simp: list_tasks_def Let_def parse_param_def ceil_div_def split: option.splits)

text \<open>
  C8, as the handler has it. The defaults stand in for a parameter that is absent: a
  request without \<^verbatim>\<open>page\<close> is answered as the same request with \<^verbatim>\<open>page=1\<close>, a request
  without \<^verbatim>\<open>limit\<close> as the same request with \<^verbatim>\<open>limit=10\<close>, and a request with neither,
  whose query the store accepts, returns the first 10 results as page 1.
\<close>

theorem C8_absent_defaults:
  "(q_page q = None \<longrightarrow>
      list_tasks db uid q store = list_tasks db uid (q\<lparr>q_page := Some ''1''\<rparr>) store)
   \<and> (q_limit q = None \<longrightarrow>
      list_tasks db uid q store = list_tasks db uid (q\<lparr>q_limit := Some ''10''\<rparr>) store)
   \<and> (q_page q = None \<and> q_limit q = None
       \<and> find_sorted db (build_query uid q) (sort_options_of q) store = Some found \<longrightarrow>
      list_tasks db uid q store =
        Inr (take 10 found,
             \<lparr> currentPage = Some 1,
               totalPages = Some \<lceil>real (length (filter (matches (build_query uid q)) store)) / 10\<rceil>,
               totalItems = length (filter (matches (build_query uid q)) store),
               itemsPerPage = Some 10 \<rparr>))"
proof -
  have a: "q_page q = None \<Longrightarrow>
      list_tasks db uid q store = list_tasks db uid (q\<lparr>q_page := Some ''1''\<rparr>) store"
    using parse_1 by (simp add: list_tasks_def parse_param_def build_query_def sort_options_of_def)
  have b: "q_limit q = None \<Longrightarrow>
      list_tasks db uid q store = list_tasks db uid (q\<lparr>q_limit := Some ''10''\<rparr>) store"
    using parse_10 by (simp add: list_tasks_def parse_param_def build_query_def sort_options_of_def)
  have c: "list_tasks db uid q store =
        Inr (take 10 found,
             \<lparr> currentPage = Some 1,
               totalPages = Some \<lceil>real (length (filter (matches (build_query uid q)) store)) / 10\<rceil>,
               totalItems = length (filter (matches (build_query uid q)) store),
               itemsPerPage = Some 10 \<rparr>)"
    if "q_page q = None" "q_limit q = None"
       "find_sorted db (build_query uid q) (sort_options_of q) store = Some found"
  proof -
    have 1: "parse_param (q_page q) 1 = Some 1" using that(1) by (simp add: parse_param_def)
    have 2: "parse_param (q_limit q) 10 = Some 10" using that(2) by (simp add: parse_param_def)
    from list_tasks_page [OF 1 _ 2 _ that(3)] show ?thesis by simp
  qed
  from a b c show ?thesis by blast
qed

lemma list_alice_default:
  "list_tasks strict_db alice empty_query [milk]
     = Inr ([milk], \<lparr> currentPage = Some 1, totalPages = Some 1, totalItems = 1, itemsPerPage = Some 10 \<rparr>)"
  by (simp add: list_tasks_def empty_query_def build_query_def sort_options_of_def sort_options_def
      parse_param_def js_mul_def js_pred_def find_sorted_def strict_db_def matches_def milk_def
      alice_def bob_def sort_by_def skip_limit_def window_def ceil_div_def Let_def)

theorem C8_absent_witness:
  "q_page empty_query = None \<and> q_limit empty_query = None
   \<and> list_tasks strict_db alice empty_query [milk]
       = list_tasks strict_db alice (empty_query\<lparr>q_page := Some ''1''\<rparr>) [milk]
   \<and> list_tasks strict_db alice empty_query [milk]
       = list_tasks strict_db alice (empty_query\<lparr>q_limit := Some ''10''\<rparr>) [milk]
   \<and> list_tasks strict_db alice empty_query [milk]
       = Inr ([milk], \<lparr> currentPage = Some 1, totalPages = Some 1, totalItems = 1, itemsPerPage = Some 10 \<rparr>)"
proof -
  have p: "q_page empty_query = None" "q_limit empty_query = None" by (simp_all add: empty_query_def)
  from C8_absent_defaults [where q = empty_query and db = strict_db and uid = alice and store = "[milk]"] p
  have "list_tasks strict_db alice empty_query [milk]
       = list_tasks strict_db alice (empty_query\<lparr>q_page := Some ''1''\<rparr>) [milk]"
    and "list_tasks strict_db alice empty_query [milk]
       = list_tasks strict_db alice (empty_query\<lparr>q_limit := Some ''10''\<rparr>) [milk]"
    by blast+
  with p list_alice_default show ?thesis by simp
qed

text \<open>
  C8 as stated fails. \<^verbatim>\<open>page=abc\<close> is not replaced by the default: \<^verbatim>\<open>parseInt\<close> gives
  \<^verbatim>\<open>NaN\<close>, which goes into \<^verbatim>\<open>skip\<close> and into \<^verbatim>\<open>currentPage\<close>. With a store that rejects
  such a skip the reply is 500; with a store that reads it as 0 the reply carries no page
  number. The request with \<^verbatim>\<open>page=1&limit=10\<close> is answered with page 1 by both.
\<close>

theorem C8_counterexample:
  "parseInt ''abc'' = None
   \<and> list_tasks strict_db alice (empty_query\<lparr>q_page := Some ''abc''\<rparr>) [milk] = Inl (Failure 500 M_list_error)
   \<and> list_tasks lax_db alice (empty_query\<lparr>q_page := Some ''abc''\<rparr>) [milk]
       = Inr ([milk], \<lparr> currentPage = None, totalPages = Some 1, totalItems = 1, itemsPerPage = Some 10 \<rparr>)
   \<and> list_tasks strict_db alice (empty_query\<lparr>q_page := Some ''1'', q_limit := Some ''10''\<rparr>) [milk]
       = Inr ([milk], \<lparr> currentPage = Some 1, totalPages = Some 1, totalItems = 1, itemsPerPage = Some 10 \<rparr>)
   \<and> list_tasks lax_db alice (empty_query\<lparr>q_page := Some ''1'', q_limit := Some ''10''\<rparr>) [milk]
       = Inr ([milk], \<lparr> currentPage = Some 1, totalPages = Some 1, totalItems = 1, itemsPerPage = Some 10 \<rparr>)"
  using parse_abc parse_1 parse_10
  by (simp add: list_tasks_def empty_query_def build_query_def sort_options_of_def sort_options_def
      parse_param_def js_mul_def js_pred_def find_sorted_def strict_db_def lax_db_def matches_def milk_def
      alice_def bob_def sort_by_def skip_limit_def window_def ceil_div_def Let_def)

end
